theory Spec2Isabelle
  imports Main "HOL-Library.Sublist"
begin

section \<open>The render-test shader compile adapter (tools/render-test/slang-support.cpp)\<close>

text \<open>
  The adapter drives an external compiler through a C API. The compiler's own state is
  opaque to the adapter, so the embedding keeps the ordered log of the calls the adapter
  makes, and takes the compiler's answers as functions of that log (the log up to and
  including the call being answered). Every function of the adapter threads the log.
\<close>

subsection \<open>Types declared outside the file\<close>

text \<open>\<open>char const*\<close>: a C string; \<open>None\<close> is the null pointer.\<close>

type_synonym cstr = "string option"

text \<open>
  \<open>SlangResult\<close> is a signed 32-bit code; \<open>SLANG_FAILED\<close> is "negative", and
  \<open>SLANG_RETURN_ON_FAIL(x)\<close> returns \<open>x\<close> from the enclosing function when it failed.
\<close>

type_synonym SlangResult = int

definition SLANG_OK :: SlangResult where
  "SLANG_OK = 0"

definition SLANG_FAIL :: SlangResult where
  "SLANG_FAIL = - 2147467259"

definition SLANG_FAILED :: "SlangResult \<Rightarrow> bool" where
  "SLANG_FAILED r = (r < 0)"

text \<open>
  \<open>SlangStage\<close> is an integer-valued enumeration of slang.h. The twelve tags below are
  the ones the file names; \<open>SLANG_STAGE_UNLISTED n\<close> stands for every other value of the
  type (\<open>SLANG_STAGE_NONE\<close> among them), told apart by a number.
\<close>

datatype SlangStage =
    SLANG_STAGE_VERTEX
  | SLANG_STAGE_HULL
  | SLANG_STAGE_DOMAIN
  | SLANG_STAGE_GEOMETRY
  | SLANG_STAGE_FRAGMENT
  | SLANG_STAGE_COMPUTE
  | SLANG_STAGE_RAY_GENERATION
  | SLANG_STAGE_INTERSECTION
  | SLANG_STAGE_ANY_HIT
  | SLANG_STAGE_CLOSEST_HIT
  | SLANG_STAGE_MISS
  | SLANG_STAGE_CALLABLE
  | SLANG_STAGE_UNLISTED nat

text \<open>\<open>gfx::StageType\<close>, the renderer's stage enumeration.\<close>

datatype StageType =
    Unknown
  | Vertex
  | Hull
  | Domain
  | Geometry
  | Fragment
  | Compute
  | RayGeneration
  | Intersection
  | AnyHit
  | ClosestHit
  | Miss
  | Callable

text \<open>
  \<open>SlangSourceLanguage\<close>: the six dialects the file names, and
  \<open>SLANG_SOURCE_LANGUAGE_UNLISTED n\<close> for every other value of the type.
\<close>

datatype SlangSourceLanguage =
    SLANG_SOURCE_LANGUAGE_SLANG
  | SLANG_SOURCE_LANGUAGE_HLSL
  | SLANG_SOURCE_LANGUAGE_GLSL
  | SLANG_SOURCE_LANGUAGE_C
  | SLANG_SOURCE_LANGUAGE_CPP
  | SLANG_SOURCE_LANGUAGE_CUDA
  | SLANG_SOURCE_LANGUAGE_UNLISTED nat

text \<open>\<open>SlangPassThrough\<close>: no pass-through, or one of the downstream tools.\<close>

datatype SlangPassThrough =
    SLANG_PASS_THROUGH_NONE
  | SLANG_PASS_THROUGH_TOOL nat

text \<open>\<open>Options::ShaderProgramType\<close>, the four program categories.\<close>

datatype ShaderProgramType =
    Graphics
  | GraphicsCompute
  | ShaderProgramType_Compute
  | RayTracing

text \<open>\<open>gfx::PipelineType\<close>, carried from the input to the output unchanged.\<close>

datatype PipelineType =
    PipelineType_Unknown
  | PipelineType_Graphics
  | PipelineType_Compute
  | PipelineType_RayTracing

record EntryPoint =
  name :: cstr
  slangStage :: SlangStage

record SourceInfo =
  path :: string
  dataBegin :: string

record ShaderCompileRequest =
  source :: SourceInfo
  compileArgs :: "string list"
  entryPoints :: "EntryPoint list"
  globalSpecializationArgs :: "string list"
  entryPointSpecializationArgs :: "string list"

text \<open>
  \<open>ShaderProgram::KernelDesc\<close>. The code range is a pair of addresses into memory owned
  by the compile request.
\<close>

record KernelDesc =
  stage :: StageType
  entryPointName :: cstr
  codeBegin :: nat
  codeEnd :: nat

record Input =
  target :: nat
  profile :: string
  sourceLanguage :: SlangSourceLanguage
  passThrough :: SlangPassThrough
  pipelineType :: PipelineType
  args :: "string list"

record Options =
  sourcePath :: string
  opt_compileArgs :: "string list"
  shaderType :: ShaderProgramType
  dontAddDefaultEntryPoints :: bool

record Output =
  desc_pipelineType :: PipelineType
  kernelDescs :: "KernelDesc list"
  request :: "nat option"
  session :: "nat option"

text \<open>
  Modelled from the spec: \<open>Output::reset\<close> and \<open>Output::set\<close> are declared in
  slang-support.h, which is not among the sources. The spec has the output "reset to an
  empty state before every population", owning the session and request handles only
  once a compile has filled it, and has the packager attach the ordered kernel list
  "tagged with the requested pipeline type".
\<close>

definition Output_reset :: "Output \<Rightarrow> Output" where
  "Output_reset out =
     \<lparr>desc_pipelineType = PipelineType_Unknown, kernelDescs = [], request = None, session = None\<rparr>"

definition Output_set :: "PipelineType \<Rightarrow> KernelDesc list \<Rightarrow> Output \<Rightarrow> Output" where
  "Output_set pt ks out = out\<lparr>desc_pipelineType := pt, kernelDescs := ks\<rparr>"

subsection \<open>Calls, the compiler's answers, assertions\<close>

datatype api_call =
    CreateCompileRequest nat
  | ProcessCommandLineArguments "string list"
  | SetCodeGenTarget nat
  | SetTargetProfile int nat
  | AddPreprocessorDefine string string
  | SetPassThrough SlangPassThrough
  | AddTranslationUnit SlangSourceLanguage cstr
  | AddTranslationUnitSourceString int string string
  | SetTypeNameForGlobalExistentialTypeParam nat string
  | SetTypeNameForEntryPointExistentialTypeParam int nat string
  | AddEntryPoint int cstr SlangStage
  | SetLineDirectiveMode_NONE
  | Compile
  | GetDiagnosticOutput
  | ProgramLayout_get
  | GetEntryPointCount
  | GetEntryPointByIndex nat
  | GetEntryPointCode int
  | GetLanguagePrelude SlangSourceLanguage
  | Stderr string

text \<open>
  The external compiler service. Each answer is a function of the log that ends with the
  call it answers. Reflection is a list of (name, stage) pairs: its length is
  \<open>getEntryPointCount\<close>, its elements are read by \<open>getEntryPointByIndex\<close>.
  \<open>spGetEntryPointCode\<close> answers with an address and a size.
\<close>

record Compiler =
  spCreateCompileRequest :: "nat \<Rightarrow> nat"
  spProcessCommandLineArguments :: "api_call list \<Rightarrow> SlangResult"
  spFindProfile :: "string \<Rightarrow> nat"
  spAddTranslationUnit :: "api_call list \<Rightarrow> int"
  spAddEntryPoint :: "api_call list \<Rightarrow> int"
  spCompile :: "api_call list \<Rightarrow> SlangResult"
  spGetDiagnosticOutput :: "api_call list \<Rightarrow> cstr"
  ProgramLayout :: "api_call list \<Rightarrow> (cstr \<times> SlangStage) list"
  spGetEntryPointCode :: "api_call list \<Rightarrow> nat \<times> nat"
  getLanguagePrelude :: "SlangSourceLanguage \<Rightarrow> string"

text \<open>
  \<open>SLANG_ASSERT\<close> and \<open>assert\<close> are macros defined outside the file; whether a failed
  one stops the program depends on how the program was built. The build is a parameter:
  with the flag set a failed assertion ends the run there, with it clear the assertion
  is no code at all and the run goes on.
\<close>

record Build =
  slangAssertOn :: bool
  cAssertOn :: bool

text \<open>How a run ends: the function returned a result code, or an assertion stopped it.\<close>

datatype outcome =
    Return SlangResult
  | AssertFail string

text \<open>
  A step of the adapter maps the log so far to the longer log and either the way the run
  ended there (\<open>Inl\<close>) or the step's value (\<open>Inr\<close>).
\<close>

type_synonym 'a step = "api_call list \<times> (outcome + 'a)"

definition thenDo :: "'a step \<Rightarrow> ('a \<Rightarrow> api_call list \<Rightarrow> 'b step) \<Rightarrow> 'b step" where
  "thenDo r f = (case r of (tr, Inl e) \<Rightarrow> (tr, Inl e) | (tr, Inr x) \<Rightarrow> f x tr)"

subsection \<open>\<open>_translateStage\<close> (lines 23--51)\<close>

fun translateStage :: "Build \<Rightarrow> SlangStage \<Rightarrow> outcome + StageType" where
  "translateStage b SLANG_STAGE_VERTEX = Inr Vertex"
| "translateStage b SLANG_STAGE_HULL = Inr Hull"
| "translateStage b SLANG_STAGE_DOMAIN = Inr Domain"
| "translateStage b SLANG_STAGE_GEOMETRY = Inr Geometry"
| "translateStage b SLANG_STAGE_FRAGMENT = Inr Fragment"
| "translateStage b SLANG_STAGE_COMPUTE = Inr Compute"
| "translateStage b SLANG_STAGE_RAY_GENERATION = Inr RayGeneration"
| "translateStage b SLANG_STAGE_INTERSECTION = Inr Intersection"
| "translateStage b SLANG_STAGE_ANY_HIT = Inr AnyHit"
| "translateStage b SLANG_STAGE_CLOSEST_HIT = Inr ClosestHit"
| "translateStage b SLANG_STAGE_MISS = Inr Miss"
| "translateStage b SLANG_STAGE_CALLABLE = Inr Callable"
| "translateStage b (SLANG_STAGE_UNLISTED n) =
     (if slangAssertOn b then Inl (AssertFail ''unhandled case'') else Inr Unknown)"

subsection \<open>\<open>ShaderCompilerUtil::compileProgram\<close> (lines 53--232)\<close>

text \<open>A run's result: how it ended, the output object as the run left it, the log.\<close>

record 'o Run =
  run_outcome :: outcome
  run_out :: 'o
  run_calls :: "api_call list"

text \<open>Lines 61--70: the extra arguments of the request, when there are any.\<close>

definition processCompileArgs :: "Compiler \<Rightarrow> ShaderCompileRequest \<Rightarrow> api_call list \<Rightarrow> unit step" where
  "processCompileArgs c req tr =
     (if 0 < length (compileArgs req) then
        (let tr1 = tr @ [ProcessCommandLineArguments (compileArgs req)];
             res = spProcessCommandLineArguments c tr1
         in if SLANG_FAILED res then (tr1, Inl (Return res)) else (tr1, Inr ()))
      else (tr, Inr ()))"

text \<open>Lines 72--73.\<close>

definition setTargetAndProfile :: "Compiler \<Rightarrow> Input \<Rightarrow> api_call list \<Rightarrow> api_call list" where
  "setTargetAndProfile c input tr =
     tr @ [SetCodeGenTarget (target input), SetTargetProfile 0 (spFindProfile c (profile input))]"

text \<open>
  Lines 75--103: the switch on the source language. The Slang case falls through into
  the HLSL case; the default case is \<open>assert(!"unexpected")\<close>.
\<close>

fun addLanguageDefine :: "Build \<Rightarrow> SlangSourceLanguage \<Rightarrow> api_call list \<Rightarrow> unit step" where
  "addLanguageDefine b SLANG_SOURCE_LANGUAGE_GLSL tr =
     (tr @ [AddPreprocessorDefine ''__GLSL__'' ''1''], Inr ())"
| "addLanguageDefine b SLANG_SOURCE_LANGUAGE_SLANG tr =
     (tr @ [AddPreprocessorDefine ''__SLANG__'' ''1'', AddPreprocessorDefine ''__HLSL__'' ''1''], Inr ())"
| "addLanguageDefine b SLANG_SOURCE_LANGUAGE_HLSL tr =
     (tr @ [AddPreprocessorDefine ''__HLSL__'' ''1''], Inr ())"
| "addLanguageDefine b SLANG_SOURCE_LANGUAGE_C tr =
     (tr @ [AddPreprocessorDefine ''__C__'' ''1''], Inr ())"
| "addLanguageDefine b SLANG_SOURCE_LANGUAGE_CPP tr =
     (tr @ [AddPreprocessorDefine ''__CPP__'' ''1''], Inr ())"
| "addLanguageDefine b SLANG_SOURCE_LANGUAGE_CUDA tr =
     (tr @ [AddPreprocessorDefine ''__CUDA__'' ''1''], Inr ())"
| "addLanguageDefine b (SLANG_SOURCE_LANGUAGE_UNLISTED n) tr =
     (if cAssertOn b then (tr, Inl (AssertFail ''unexpected'')) else (tr, Inr ()))"

text \<open>Lines 105--108.\<close>

definition setPassThroughMode :: "Input \<Rightarrow> api_call list \<Rightarrow> api_call list" where
  "setPassThroughMode input tr =
     (if passThrough input \<noteq> SLANG_PASS_THROUGH_NONE then tr @ [SetPassThrough (passThrough input)]
      else tr)"

text \<open>Lines 110--112: the arguments of the input, processed whatever the mode.\<close>

definition processInputArgs :: "Compiler \<Rightarrow> Input \<Rightarrow> api_call list \<Rightarrow> unit step" where
  "processInputArgs c input tr =
     (let tr1 = tr @ [ProcessCommandLineArguments (args input)];
          res = spProcessCommandLineArguments c tr1
      in if SLANG_FAILED res then (tr1, Inl (Return res)) else (tr1, Inr ()))"

text \<open>Lines 116--120: one translation unit; the value is its index.\<close>

definition addTranslationUnit :: "Compiler \<Rightarrow> Input \<Rightarrow> ShaderCompileRequest \<Rightarrow> api_call list \<Rightarrow> int step" where
  "addTranslationUnit c input req tr =
     (let tr1 = tr @ [AddTranslationUnit (sourceLanguage input) None];
          translationUnitIndex = spAddTranslationUnit c tr1
      in (tr1 @ [AddTranslationUnitSourceString translationUnitIndex (path (source req))
                   (dataBegin (source req))],
          Inr translationUnitIndex))"

text \<open>Lines 122--126: the loop over the global specialization arguments, from \<open>ii\<close> on.\<close>

fun setGlobalSpecializationArgs :: "nat \<Rightarrow> string list \<Rightarrow> api_call list" where
  "setGlobalSpecializationArgs ii [] = []"
| "setGlobalSpecializationArgs ii (a # as) =
     SetTypeNameForGlobalExistentialTypeParam ii a # setGlobalSpecializationArgs (Suc ii) as"

text \<open>
  Lines 128--135: the lambda \<open>setEntryPointSpecializationArgs\<close>, a loop over
  \<open>request.entryPointSpecializationArgs\<close> from \<open>ii\<close> on, for one entry point.
\<close>

fun setEntryPointSpecializationArgs :: "int \<Rightarrow> nat \<Rightarrow> string list \<Rightarrow> api_call list" where
  "setEntryPointSpecializationArgs entryPoint ii [] = []"
| "setEntryPointSpecializationArgs entryPoint ii (a # as) =
     SetTypeNameForEntryPointExistentialTypeParam entryPoint ii a
       # setEntryPointSpecializationArgs entryPoint (Suc ii) as"

text \<open>
  Lines 137--158: the loop over the explicit entry points, from position \<open>ee\<close> on. The
  step's value is the list of the indices the compiler returned, in order.
\<close>

fun addEntryPoints ::
  "Build \<Rightarrow> Compiler \<Rightarrow> Options \<Rightarrow> int \<Rightarrow> string list \<Rightarrow> nat \<Rightarrow> EntryPoint list \<Rightarrow> api_call list
     \<Rightarrow> int list step" where
  "addEntryPoints b c options tu spArgs ee [] tr = (tr, Inr [])"
| "addEntryPoints b c options tu spArgs ee (entryPointInfo # rest) tr =
     (if slangAssertOn b \<and> dontAddDefaultEntryPoints options then (tr, Inl (AssertFail ''false''))
      else
        (let tr1 = tr @ [AddEntryPoint tu (name entryPointInfo) (slangStage entryPointInfo)];
             entryPointIndex = spAddEntryPoint c tr1
         in if slangAssertOn b \<and> entryPointIndex \<noteq> int ee
            then (tr1, Inl (AssertFail ''entryPointIndex == ee''))
            else
              (case addEntryPoints b c options tu spArgs (Suc ee) rest
                      (tr1 @ setEntryPointSpecializationArgs entryPointIndex 0 spArgs) of
                 (tr2, Inl e) \<Rightarrow> (tr2, Inl e)
               | (tr2, Inr idxs) \<Rightarrow> (tr2, Inr (entryPointIndex # idxs)))))"

text \<open>Lines 160--169: compile, forward the diagnostics, return on failure.\<close>

definition runCompile :: "Compiler \<Rightarrow> api_call list \<Rightarrow> unit step" where
  "runCompile c tr =
     (let tr1 = tr @ [SetLineDirectiveMode_NONE, Compile];
          res = spCompile c tr1;
          tr2 = tr1 @ [GetDiagnosticOutput];
          tr3 = (case spGetDiagnosticOutput c tr2 of
                   Some diagnostics \<Rightarrow> tr2 @ [Stderr diagnostics]
                 | None \<Rightarrow> tr2)
      in if SLANG_FAILED res then (tr3, Inl (Return res)) else (tr3, Inr ()))"

text \<open>
  Lines 188--201: the loop over the reflected entry points, from position \<open>ee\<close> on,
  appending to \<open>actualEntryPoints\<close>.
\<close>

fun discoverEntryPoints ::
  "Build \<Rightarrow> nat \<Rightarrow> (cstr \<times> SlangStage) list \<Rightarrow> EntryPoint list \<Rightarrow> api_call list
     \<Rightarrow> EntryPoint list step" where
  "discoverEntryPoints b ee [] actualEntryPoints tr = (tr, Inr actualEntryPoints)"
| "discoverEntryPoints b ee ((epName, stg) # rest) actualEntryPoints tr =
     (let tr1 = tr @ [GetEntryPointByIndex ee]
      in if slangAssertOn b \<and> epName = None then (tr1, Inl (AssertFail ''entryPointName''))
         else discoverEntryPoints b (Suc ee) rest
                (actualEntryPoints @ [\<lparr>name = epName, slangStage = stg\<rparr>]) tr1)"

text \<open>Lines 172--206: the entry points the kernels are made from.\<close>

definition resolveEntryPoints ::
  "Build \<Rightarrow> Compiler \<Rightarrow> Input \<Rightarrow> ShaderCompileRequest \<Rightarrow> api_call list \<Rightarrow> EntryPoint list step" where
  "resolveEntryPoints b c input req tr =
     (if passThrough input = SLANG_PASS_THROUGH_NONE then
        (let tr1 = tr @ [ProgramLayout_get];
             reflection = ProgramLayout c tr1;
             tr2 = tr1 @ [GetEntryPointCount];
             entryPointCount = length reflection
         in if slangAssertOn b \<and> entryPointCount = 0 then (tr2, Inl (AssertFail ''entryPointCount''))
            else discoverEntryPoints b 0 reflection [] tr2)
      else (tr, Inr (entryPoints req)))"

text \<open>
  Lines 208--227: the loop over the resolved entry points, from position \<open>ee\<close> on,
  appending to \<open>kernelDescs\<close>.
\<close>

fun packageKernels ::
  "Build \<Rightarrow> Compiler \<Rightarrow> nat \<Rightarrow> EntryPoint list \<Rightarrow> KernelDesc list \<Rightarrow> api_call list
     \<Rightarrow> KernelDesc list step" where
  "packageKernels b c ee [] kds tr = (tr, Inr kds)"
| "packageKernels b c ee (actualEntryPoint # rest) kds tr =
     (let tr1 = tr @ [GetEntryPointCode (int ee)];
          (code, codeSize) = spGetEntryPointCode c tr1
      in case translateStage b (slangStage actualEntryPoint) of
           Inl e \<Rightarrow> (tr1, Inl e)
         | Inr gfxStage \<Rightarrow>
             packageKernels b c (Suc ee) rest
               (kds @ [\<lparr>stage = gfxStage, entryPointName = name actualEntryPoint,
                        codeBegin = code, codeEnd = code + codeSize\<rparr>]) tr1)"

text \<open>Lines 61--112 in sequence: the settings of the request.\<close>

definition configureRequest ::
  "Build \<Rightarrow> Compiler \<Rightarrow> Input \<Rightarrow> ShaderCompileRequest \<Rightarrow> api_call list \<Rightarrow> unit step" where
  "configureRequest b c input req tr0 =
     thenDo (processCompileArgs c req tr0) (\<lambda>_ tr.
     thenDo (addLanguageDefine b (sourceLanguage input) (setTargetAndProfile c input tr)) (\<lambda>_ tr.
     processInputArgs c input (setPassThroughMode input tr)))"

text \<open>
  Lines 114--158 in sequence: the translation unit, the global specialization arguments,
  the entry points. The value is the list of the indices returned for the entry points.
\<close>

definition populateRequest ::
  "Build \<Rightarrow> Compiler \<Rightarrow> Options \<Rightarrow> Input \<Rightarrow> ShaderCompileRequest \<Rightarrow> api_call list \<Rightarrow> int list step" where
  "populateRequest b c options input req tr0 =
     thenDo (addTranslationUnit c input req tr0) (\<lambda>translationUnitIndex tr.
     addEntryPoints b c options translationUnitIndex (entryPointSpecializationArgs req) 0
       (entryPoints req)
       (tr @ setGlobalSpecializationArgs 0 (globalSpecializationArgs req)))"

text \<open>Lines 55--169 in sequence: the request is created, built and compiled.\<close>

definition buildAndCompile ::
  "Build \<Rightarrow> Compiler \<Rightarrow> nat \<Rightarrow> Options \<Rightarrow> Input \<Rightarrow> ShaderCompileRequest \<Rightarrow> unit step" where
  "buildAndCompile b c sess options input req =
     thenDo (configureRequest b c input req [CreateCompileRequest sess]) (\<lambda>_ tr.
     thenDo (populateRequest b c options input req tr) (\<lambda>_ tr.
     runCompile c tr))"

text \<open>Lines 172--227 in sequence: the entry points are resolved and their kernels packaged.\<close>

definition extractKernels ::
  "Build \<Rightarrow> Compiler \<Rightarrow> Input \<Rightarrow> ShaderCompileRequest \<Rightarrow> api_call list \<Rightarrow> KernelDesc list step" where
  "extractKernels b c input req tr =
     thenDo (resolveEntryPoints b c input req tr) (\<lambda>actualEntryPoints tr1.
     packageKernels b c 0 actualEntryPoints [] tr1)"

text \<open>Lines 55--227 in sequence; on success the value is the list \<open>kernelDescs\<close>.\<close>

definition compileSteps ::
  "Build \<Rightarrow> Compiler \<Rightarrow> nat \<Rightarrow> Options \<Rightarrow> Input \<Rightarrow> ShaderCompileRequest \<Rightarrow> KernelDesc list step" where
  "compileSteps b c sess options input req =
     thenDo (buildAndCompile b c sess options input req) (\<lambda>_ tr.
     extractKernels b c input req tr)"

text \<open>
  The function: the output is reset and given the new request and the session (lines
  55--59), the steps run, and only when they all succeed is the output set (line 229)
  and \<open>SLANG_OK\<close> returned.
\<close>

definition compileProgram ::
  "Build \<Rightarrow> Compiler \<Rightarrow> nat \<Rightarrow> Options \<Rightarrow> Input \<Rightarrow> ShaderCompileRequest \<Rightarrow> Output \<Rightarrow> Output Run" where
  "compileProgram b c sess options input req out0 =
     (let out1 = (Output_reset out0)\<lparr>request := Some (spCreateCompileRequest c sess),
                                     session := Some sess\<rparr>
      in case compileSteps b c sess options input req of
           (tr, Inl e) \<Rightarrow> \<lparr>run_outcome = e, run_out = out1, run_calls = tr\<rparr>
         | (tr, Inr kds) \<Rightarrow>
             \<lparr>run_outcome = Return SLANG_OK,
              run_out = Output_set (pipelineType input) kds out1,
              run_calls = tr\<rparr>)"

subsection \<open>\<open>ShaderCompilerUtil::readSource\<close> and \<open>compileWithLayout\<close> (lines 234--363)\<close>

text \<open>
  The test's resource-binding layout, as far as the file reads and writes it. Its parser
  is a collaborator outside the file: \<open>layout_parse\<close> and \<open>layout_updateForTarget\<close>
  are parameters, as is the file system (\<open>files\<close> maps a path to the bytes of the file,
  \<open>None\<close> when it cannot be opened).
\<close>

record Layout =
  numRenderTargets :: int
  layout_globalSpecializationArgs :: "string list"
  layout_entryPointSpecializationArgs :: "string list"

record OutputAndLayout =
  oal_output :: Output
  layout :: Layout
  oal_sourcePath :: string

record Host =
  files :: "string \<Rightarrow> string option"
  layout_parse :: "nat \<Rightarrow> string \<Rightarrow> Layout \<Rightarrow> Layout"
  layout_updateForTarget :: "nat \<Rightarrow> Layout \<Rightarrow> Layout"

text \<open>A buffer read as a C string ends before its first zero byte.\<close>

definition c_str :: "string \<Rightarrow> string" where
  "c_str buf = takeWhile (\<lambda>ch. ch \<noteq> CHR 0x00) buf"

text \<open>Lines 234--253: the whole file, with a terminating zero byte.\<close>

definition readSource :: "Host \<Rightarrow> string \<Rightarrow> api_call list \<Rightarrow> string step" where
  "readSource h inSourcePath tr =
     (case files h inSourcePath of
        None \<Rightarrow>
          (tr @ [Stderr (''error: failed to open '' @ [CHR 0x27] @ inSourcePath @ [CHR 0x27]
                          @ '' for reading'' @ [CHR 0x0A])],
           Inl (Return SLANG_FAIL))
      | Some bytes \<Rightarrow> (tr, Inr (bytes @ [CHR 0x00])))"

text \<open>Lines 264--279: the prelude in front of the source, for C and C++.\<close>

definition addPrelude :: "Compiler \<Rightarrow> Input \<Rightarrow> string \<Rightarrow> api_call list \<Rightarrow> api_call list \<times> string" where
  "addPrelude c input sourceText tr =
     (if sourceLanguage input = SLANG_SOURCE_LANGUAGE_CPP \<or> sourceLanguage input = SLANG_SOURCE_LANGUAGE_C
      then (tr @ [GetLanguagePrelude (sourceLanguage input)],
            getLanguagePrelude c (sourceLanguage input) @ [CHR 0x0A] @ sourceText)
      else (tr, sourceText))"

text \<open>Lines 285--296: the default number of render targets.\<close>

fun defaultNumRenderTargets :: "ShaderProgramType \<Rightarrow> int" where
  "defaultNumRenderTargets ShaderProgramType_Compute = 0"
| "defaultNumRenderTargets RayTracing = 0"
| "defaultNumRenderTargets Graphics = 1"
| "defaultNumRenderTargets GraphicsCompute = 1"

text \<open>Lines 318--358: the entry points added to the request by default.\<close>

definition defaultEntryPoints :: "Options \<Rightarrow> EntryPoint list" where
  "defaultEntryPoints options =
     (if \<not> dontAddDefaultEntryPoints options then
        (if shaderType options = Graphics \<or> shaderType options = GraphicsCompute then
           [\<lparr>name = Some ''vertexMain'', slangStage = SLANG_STAGE_VERTEX\<rparr>,
            \<lparr>name = Some ''fragmentMain'', slangStage = SLANG_STAGE_FRAGMENT\<rparr>]
         else if shaderType options = RayTracing then []
         else [\<lparr>name = Some ''computeMain'', slangStage = SLANG_STAGE_COMPUTE\<rparr>])
      else [])"

text \<open>Lines 305--360: the request handed to \<open>compileProgram\<close>.\<close>

definition buildCompileRequest :: "Options \<Rightarrow> string \<Rightarrow> Layout \<Rightarrow> ShaderCompileRequest" where
  "buildCompileRequest options sourceText lay =
     \<lparr>source = \<lparr>path = sourcePath options, dataBegin = c_str sourceText\<rparr>,
      compileArgs = opt_compileArgs options,
      entryPoints = defaultEntryPoints options,
      globalSpecializationArgs = layout_globalSpecializationArgs lay,
      entryPointSpecializationArgs = layout_entryPointSpecializationArgs lay\<rparr>"

text \<open>Lines 281--303: the layout the output gets, from the one it had.\<close>

definition parseLayout :: "Host \<Rightarrow> Options \<Rightarrow> Input \<Rightarrow> string \<Rightarrow> Layout \<Rightarrow> Layout" where
  "parseLayout h options input sourceText lay =
     layout_updateForTarget h (target input)
       (layout_parse h 0x34234 (c_str sourceText)
          (lay\<lparr>numRenderTargets := defaultNumRenderTargets (shaderType options)\<rparr>))"

definition compileWithLayout ::
  "Host \<Rightarrow> Build \<Rightarrow> Compiler \<Rightarrow> nat \<Rightarrow> Options \<Rightarrow> Input \<Rightarrow> OutputAndLayout \<Rightarrow> OutputAndLayout Run" where
  "compileWithLayout h b c sess options input output0 =
     (case readSource h (sourcePath options) [] of
        (tr, Inl e) \<Rightarrow> \<lparr>run_outcome = e, run_out = output0, run_calls = tr\<rparr>
      | (tr, Inr sourceText0) \<Rightarrow>
          (let (tr1, sourceText) = addPrelude c input sourceText0 tr;
               lay = parseLayout h options input sourceText (layout output0);
               r = compileProgram b c sess options input
                     (buildCompileRequest options sourceText lay) (oal_output output0)
           in \<lparr>run_outcome = run_outcome r,
               run_out = output0\<lparr>oal_output := run_out r, layout := lay,
                                 oal_sourcePath := sourcePath options\<rparr>,
               run_calls = tr1 @ run_calls r\<rparr>))"

subsection \<open>Reading a log\<close>

text \<open>The part of a run a call belongs to, by the kind of the call.\<close>

datatype phase = Loading | Creating | Configuring | Populating | Compiling | Reflecting | Packaging

fun phase_of :: "api_call \<Rightarrow> phase" where
  "phase_of (CreateCompileRequest s) = Creating"
| "phase_of (ProcessCommandLineArguments as) = Configuring"
| "phase_of (SetCodeGenTarget t) = Configuring"
| "phase_of (SetTargetProfile i p) = Configuring"
| "phase_of (AddPreprocessorDefine n v) = Configuring"
| "phase_of (SetPassThrough p) = Configuring"
| "phase_of (AddTranslationUnit l n) = Populating"
| "phase_of (AddTranslationUnitSourceString i p s) = Populating"
| "phase_of (SetTypeNameForGlobalExistentialTypeParam i a) = Populating"
| "phase_of (SetTypeNameForEntryPointExistentialTypeParam e i a) = Populating"
| "phase_of (AddEntryPoint tu n s) = Populating"
| "phase_of SetLineDirectiveMode_NONE = Compiling"
| "phase_of Compile = Compiling"
| "phase_of GetDiagnosticOutput = Compiling"
| "phase_of (Stderr s) = Compiling"
| "phase_of ProgramLayout_get = Reflecting"
| "phase_of GetEntryPointCount = Reflecting"
| "phase_of (GetEntryPointByIndex i) = Reflecting"
| "phase_of (GetEntryPointCode i) = Packaging"
| "phase_of (GetLanguagePrelude l) = Loading"

definition isReflectionCall :: "api_call \<Rightarrow> bool" where
  "isReflectionCall x = (phase_of x = Reflecting)"

text \<open>The macros a log defines, in order, as (name, value) pairs.\<close>

fun macroOf :: "api_call \<Rightarrow> (string \<times> string) list" where
  "macroOf (AddPreprocessorDefine n v) = [(n, v)]"
| "macroOf x = []"

definition definedMacros :: "api_call list \<Rightarrow> (string \<times> string) list" where
  "definedMacros tr = concat (map macroOf tr)"

text \<open>The entry points a log adds to the request, in order, as (name, stage) pairs.\<close>

fun entryPointOf :: "api_call \<Rightarrow> (cstr \<times> SlangStage) list" where
  "entryPointOf (AddEntryPoint tu n s) = [(n, s)]"
| "entryPointOf x = []"

definition addedEntryPoints :: "api_call list \<Rightarrow> (cstr \<times> SlangStage) list" where
  "addedEntryPoints tr = concat (map entryPointOf tr)"

text \<open>The macros of each dialect, as a table.\<close>

fun dialectMacros :: "SlangSourceLanguage \<Rightarrow> (string \<times> string) list" where
  "dialectMacros SLANG_SOURCE_LANGUAGE_GLSL = [(''__GLSL__'', ''1'')]"
| "dialectMacros SLANG_SOURCE_LANGUAGE_SLANG = [(''__SLANG__'', ''1''), (''__HLSL__'', ''1'')]"
| "dialectMacros SLANG_SOURCE_LANGUAGE_HLSL = [(''__HLSL__'', ''1'')]"
| "dialectMacros SLANG_SOURCE_LANGUAGE_C = [(''__C__'', ''1'')]"
| "dialectMacros SLANG_SOURCE_LANGUAGE_CPP = [(''__CPP__'', ''1'')]"
| "dialectMacros SLANG_SOURCE_LANGUAGE_CUDA = [(''__CUDA__'', ''1'')]"
| "dialectMacros (SLANG_SOURCE_LANGUAGE_UNLISTED n) = []"

text \<open>
  The order of the settings as the specification words it: the extra arguments of the
  request, the target and the profile, the dialect's macros, the pass-through mode when
  one is requested, the arguments of the input.
\<close>

definition compileArgCalls :: "ShaderCompileRequest \<Rightarrow> api_call list" where
  "compileArgCalls req =
     (if compileArgs req = [] then [] else [ProcessCommandLineArguments (compileArgs req)])"

definition targetCalls :: "Compiler \<Rightarrow> Input \<Rightarrow> api_call list" where
  "targetCalls c input =
     [SetCodeGenTarget (target input), SetTargetProfile 0 (spFindProfile c (profile input))]"

definition macroCalls :: "SlangSourceLanguage \<Rightarrow> api_call list" where
  "macroCalls lang = map (\<lambda>(n, v). AddPreprocessorDefine n v) (dialectMacros lang)"

definition passThroughCalls :: "Input \<Rightarrow> api_call list" where
  "passThroughCalls input =
     (if passThrough input = SLANG_PASS_THROUGH_NONE then [] else [SetPassThrough (passThrough input)])"

definition requestBuildingOrder :: "Compiler \<Rightarrow> Input \<Rightarrow> ShaderCompileRequest \<Rightarrow> api_call list" where
  "requestBuildingOrder c input req =
     compileArgCalls req
     @ targetCalls c input
     @ macroCalls (sourceLanguage input)
     @ passThroughCalls input
     @ [ProcessCommandLineArguments (args input)]"

text \<open>A log grown from another by calls that all satisfy \<open>P\<close>.\<close>

definition grows :: "(api_call \<Rightarrow> bool) \<Rightarrow> api_call list \<Rightarrow> api_call list \<Rightarrow> bool" where
  "grows P tr tr' = (\<exists>ys. tr' = tr @ ys \<and> list_all P ys)"

text \<open>The calls that come after the request is populated.\<close>

definition afterPopulating :: "api_call \<Rightarrow> bool" where
  "afterPopulating y =
     (phase_of y = Compiling \<or> phase_of y = Reflecting \<or> phase_of y = Packaging)"

text \<open>The calls that come after the settings of the request.\<close>

definition afterSettings :: "api_call \<Rightarrow> bool" where
  "afterSettings y =
     (phase_of y = Populating \<or> phase_of y = Compiling \<or> phase_of y = Reflecting \<or> phase_of y = Packaging)"

text \<open>
  The calls made for one entry point: its addition, then one call per specialization
  argument, in the order of the list, for the index \<open>idx\<close>.
\<close>

definition entryPointBlock :: "int \<Rightarrow> string list \<Rightarrow> int \<Rightarrow> EntryPoint \<Rightarrow> api_call list" where
  "entryPointBlock tu spArgs idx ep =
     AddEntryPoint tu (name ep) (slangStage ep)
       # map (\<lambda>(ii, a). SetTypeNameForEntryPointExistentialTypeParam idx ii a) (enumerate 0 spArgs)"

text \<open>The calls made for the entry points \<open>eps\<close>, declared from position \<open>ee\<close> on.\<close>

definition entryPointCalls :: "int \<Rightarrow> string list \<Rightarrow> nat \<Rightarrow> EntryPoint list \<Rightarrow> api_call list" where
  "entryPointCalls tu spArgs ee eps =
     concat (map (\<lambda>(i, ep). entryPointBlock tu spArgs (int i) ep) (enumerate ee eps))"

text \<open>The index the compiler returns for the translation unit added to the log \<open>tr\<close>.\<close>

definition translationUnitIndexOf :: "Compiler \<Rightarrow> Input \<Rightarrow> api_call list \<Rightarrow> int" where
  "translationUnitIndexOf c input tr =
     spAddTranslationUnit c (tr @ [AddTranslationUnit (sourceLanguage input) None])"

text \<open>
  The calls made before the entry points are added: the translation unit, its source,
  the global specialization arguments.
\<close>

definition translationUnitCalls :: "Compiler \<Rightarrow> Input \<Rightarrow> ShaderCompileRequest \<Rightarrow> api_call list \<Rightarrow> api_call list" where
  "translationUnitCalls c input req tr =
     [AddTranslationUnit (sourceLanguage input) None,
      AddTranslationUnitSourceString (translationUnitIndexOf c input tr) (path (source req))
        (dataBegin (source req))]
     @ setGlobalSpecializationArgs 0 (globalSpecializationArgs req)"

text \<open>The code queries of the packaging loop, for the positions from \<open>ee\<close> up to \<open>n\<close>.\<close>

definition codeQueries :: "nat \<Rightarrow> nat \<Rightarrow> api_call list" where
  "codeQueries ee n = map (\<lambda>k. GetEntryPointCode (int k)) [ee..<n]"

text \<open>
  The kernel descriptor of an entry point, from the compiler's answer to the code query
  that ends the log \<open>log\<close>: the translated stage, the name, the byte range.
\<close>

definition kernelOf :: "Build \<Rightarrow> Compiler \<Rightarrow> api_call list \<Rightarrow> EntryPoint \<Rightarrow> KernelDesc" where
  "kernelOf b c log ep =
     \<lparr>stage = (case translateStage b (slangStage ep) of Inr g \<Rightarrow> g | Inl e \<Rightarrow> Unknown),
      entryPointName = name ep,
      codeBegin = fst (spGetEntryPointCode c log),
      codeEnd = fst (spGetEntryPointCode c log) + snd (spGetEntryPointCode c log)\<rparr>"

text \<open>An entry point as reflection gives it.\<close>

definition reflectedEntryPoint :: "cstr \<times> SlangStage \<Rightarrow> EntryPoint" where
  "reflectedEntryPoint r = \<lparr>name = fst r, slangStage = snd r\<rparr>"

subsection \<open>A compiler and a host to run the adapter on\<close>

fun isAddEntryPoint :: "api_call \<Rightarrow> bool" where
  "isAddEntryPoint (AddEntryPoint tu n s) = True"
| "isAddEntryPoint x = False"

text \<open>
  A compiler that accepts every argument list, numbers entry points from 0 in the order
  of their addition, answers the compile with \<open>res\<close> and reflects the entry points
  \<open>reflected\<close>; the code of an entry point lies at an address that grows with the log.
\<close>

definition testCompiler :: "SlangResult \<Rightarrow> (cstr \<times> SlangStage) list \<Rightarrow> Compiler" where
  "testCompiler res reflected =
     \<lparr>spCreateCompileRequest = (\<lambda>s. Suc s),
      spProcessCommandLineArguments = (\<lambda>tr. SLANG_OK),
      spFindProfile = length,
      spAddTranslationUnit = (\<lambda>tr. 0),
      spAddEntryPoint = (\<lambda>tr. int (length (filter isAddEntryPoint tr)) - 1),
      spCompile = (\<lambda>tr. res),
      spGetDiagnosticOutput = (\<lambda>tr. None),
      ProgramLayout = (\<lambda>tr. reflected),
      spGetEntryPointCode = (\<lambda>tr. (4096 * length tr, 64)),
      getLanguagePrelude = (\<lambda>l. ''// prelude'')\<rparr>"

text \<open>A host with one readable file.\<close>

definition testHost :: Host where
  "testHost =
     \<lparr>files = (\<lambda>p. if p = ''test.slang'' then Some ''void computeMain() {}'' else None),
      layout_parse = (\<lambda>seed text lay. lay),
      layout_updateForTarget = (\<lambda>t lay. lay)\<rparr>"

definition debugBuild :: Build where
  "debugBuild = \<lparr>slangAssertOn = True, cAssertOn = True\<rparr>"

definition releaseBuild :: Build where
  "releaseBuild = \<lparr>slangAssertOn = False, cAssertOn = False\<rparr>"

definition testInput :: "SlangSourceLanguage \<Rightarrow> SlangPassThrough \<Rightarrow> Input" where
  "testInput lang pt =
     \<lparr>target = 1, profile = ''sm_5_0'', sourceLanguage = lang, passThrough = pt,
      pipelineType = PipelineType_Compute, args = []\<rparr>"

definition testOptions :: "ShaderProgramType \<Rightarrow> Options" where
  "testOptions st =
     \<lparr>sourcePath = ''test.slang'', opt_compileArgs = [], shaderType = st,
      dontAddDefaultEntryPoints = False\<rparr>"

definition testRequest :: "EntryPoint list \<Rightarrow> string list \<Rightarrow> ShaderCompileRequest" where
  "testRequest eps spArgs =
     \<lparr>source = \<lparr>path = ''test.slang'', dataBegin = ''void computeMain() {}''\<rparr>,
      compileArgs = [],
      entryPoints = eps,
      globalSpecializationArgs = [],
      entryPointSpecializationArgs = spArgs\<rparr>"

definition testLayout :: Layout where
  "testLayout =
     \<lparr>numRenderTargets = 5, layout_globalSpecializationArgs = [],
      layout_entryPointSpecializationArgs = []\<rparr>"

definition emptyOutput :: Output where
  "emptyOutput =
     \<lparr>desc_pipelineType = PipelineType_Unknown, kernelDescs = [], request = None, session = None\<rparr>"

subsection \<open>Sequencing\<close>

lemma thenDo_Inl: "snd r = Inl e \<Longrightarrow> thenDo r f = (fst r, Inl e)"
  by (cases r) (simp add: thenDo_def)

lemma thenDo_Inr: "snd r = Inr x \<Longrightarrow> thenDo r f = f x (fst r)"
  by (cases r) (simp add: thenDo_def)

lemma thenDo_assoc: "thenDo (thenDo r f) g = thenDo r (\<lambda>x tr. thenDo (f x tr) g)"
  by (cases r; cases "snd r") (simp_all add: thenDo_def)

lemma thenDo_result:
  "thenDo r f = (tr', Inr y) \<Longrightarrow> \<exists>x. snd r = Inr x \<and> f x (fst r) = (tr', Inr y)"
  by (cases r; cases "snd r") (simp_all add: thenDo_def)

subsection \<open>The settings of the request\<close>

lemma addLanguageDefine_cases:
  "(cAssertOn b \<and> (\<exists>n. lang = SLANG_SOURCE_LANGUAGE_UNLISTED n) \<and>
      addLanguageDefine b lang tr = (tr, Inl (AssertFail ''unexpected''))) \<or>
   addLanguageDefine b lang tr = (tr @ macroCalls lang, Inr ())"
  by (cases lang) (simp_all add: macroCalls_def)

text \<open>
  The three ways the settings can end: the first argument list is refused; the dialect
  is not one of the six and \<open>assert\<close> is compiled in; or every setting was made, in the
  order of \<open>requestBuildingOrder\<close>, the last of them accepted or refused.
\<close>

lemma configureRequest_cases:
  "(\<exists>r. SLANG_FAILED r \<and>
        configureRequest b c input req tr = (tr @ compileArgCalls req, Inl (Return r))) \<or>
   (cAssertOn b \<and> (\<exists>n. sourceLanguage input = SLANG_SOURCE_LANGUAGE_UNLISTED n) \<and>
        configureRequest b c input req tr =
          (tr @ compileArgCalls req @ targetCalls c input, Inl (AssertFail ''unexpected''))) \<or>
   configureRequest b c input req tr = (tr @ requestBuildingOrder c input req, Inr ()) \<or>
   (\<exists>r. SLANG_FAILED r \<and>
        configureRequest b c input req tr = (tr @ requestBuildingOrder c input req, Inl (Return r)))"
proof -
  let ?lang = "sourceLanguage input"
  let ?a = "compileArgCalls req"
  let ?tp = "targetCalls c input"
  let ?m = "macroCalls ?lang"
  let ?p = "passThroughCalls input"
  let ?i = "[ProcessCommandLineArguments (args input)]"
  have order: "requestBuildingOrder c input req = ?a @ ?tp @ ?m @ ?p @ ?i"
    by (simp add: requestBuildingOrder_def)
  have first: "fst (processCompileArgs c req tr) = tr @ ?a"
    by (simp add: processCompileArgs_def compileArgCalls_def Let_def)
  have first_res: "snd (processCompileArgs c req tr) = Inr () \<or>
      (\<exists>r. SLANG_FAILED r \<and> snd (processCompileArgs c req tr) = Inl (Return r))"
    by (simp add: processCompileArgs_def Let_def)
  from first_res show ?thesis
  proof
    assume "\<exists>r. SLANG_FAILED r \<and> snd (processCompileArgs c req tr) = Inl (Return r)"
    then obtain r where "SLANG_FAILED r" and "snd (processCompileArgs c req tr) = Inl (Return r)"
      by blast
    then have "SLANG_FAILED r \<and> configureRequest b c input req tr = (tr @ ?a, Inl (Return r))"
      using first by (simp add: configureRequest_def thenDo_Inl)
    then show ?thesis by blast
  next
    assume ok: "snd (processCompileArgs c req tr) = Inr ()"
    let ?t1 = "setTargetAndProfile c input (tr @ ?a)"
    have t1: "?t1 = tr @ ?a @ ?tp"
      by (simp add: setTargetAndProfile_def targetCalls_def)
    have step1: "configureRequest b c input req tr =
        thenDo (addLanguageDefine b ?lang ?t1) (\<lambda>_ t. processInputArgs c input (setPassThroughMode input t))"
      using ok first by (simp add: configureRequest_def thenDo_Inr)
    from addLanguageDefine_cases [of b ?lang ?t1] show ?thesis
    proof
      assume "cAssertOn b \<and> (\<exists>n. ?lang = SLANG_SOURCE_LANGUAGE_UNLISTED n) \<and>
          addLanguageDefine b ?lang ?t1 = (?t1, Inl (AssertFail ''unexpected''))"
      then have "cAssertOn b \<and> (\<exists>n. ?lang = SLANG_SOURCE_LANGUAGE_UNLISTED n) \<and>
          configureRequest b c input req tr = (tr @ ?a @ ?tp, Inl (AssertFail ''unexpected''))"
        using step1 t1 by (simp add: thenDo_Inl)
      then show ?thesis by blast
    next
      assume "addLanguageDefine b ?lang ?t1 = (?t1 @ ?m, Inr ())"
      then have step2: "configureRequest b c input req tr =
          processInputArgs c input (setPassThroughMode input (tr @ ?a @ ?tp @ ?m))"
        using step1 t1 by (simp add: thenDo_Inr)
      have pt: "setPassThroughMode input (tr @ ?a @ ?tp @ ?m) = tr @ ?a @ ?tp @ ?m @ ?p"
        by (simp add: setPassThroughMode_def passThroughCalls_def)
      have "configureRequest b c input req tr = (tr @ ?a @ ?tp @ ?m @ ?p @ ?i, Inr ()) \<or>
          (\<exists>r. SLANG_FAILED r \<and>
             configureRequest b c input req tr = (tr @ ?a @ ?tp @ ?m @ ?p @ ?i, Inl (Return r)))"
        unfolding step2 pt by (simp add: processInputArgs_def Let_def)
      then show ?thesis unfolding order by blast
    qed
  qed
qed

subsection \<open>The loops\<close>

lemma upt_shift: "[ee..<Suc (ee + n)] = ee # [Suc ee..<Suc (ee + n)]"
  by (simp add: upt_conv_Cons del: upt_Suc)

lemma setGlobalSpecializationArgs_phase:
  "list_all (\<lambda>y. phase_of y = Populating) (setGlobalSpecializationArgs ii as)"
  by (induction as arbitrary: ii) simp_all

lemma setEntryPointSpecializationArgs_enumerate:
  "setEntryPointSpecializationArgs e ii as =
     map (\<lambda>(i, a). SetTypeNameForEntryPointExistentialTypeParam e i a) (enumerate ii as)"
  by (induction as arbitrary: ii) simp_all

lemma entryPointBlock_eq:
  "entryPointBlock tu spArgs idx ep =
     AddEntryPoint tu (name ep) (slangStage ep) # setEntryPointSpecializationArgs idx 0 spArgs"
  by (simp add: entryPointBlock_def setEntryPointSpecializationArgs_enumerate)

lemma entryPointBlock_phase:
  "list_all (\<lambda>y. phase_of y = Populating) (entryPointBlock tu spArgs idx ep)"
  by (simp add: entryPointBlock_def list_all_iff split_def)

lemma addEntryPoints_Inr:
  "addEntryPoints b c options tu spArgs ee eps tr = (tr', Inr idxs) \<Longrightarrow>
     length idxs = length eps \<and>
     tr' = tr @ concat (map (\<lambda>(idx, ep). entryPointBlock tu spArgs idx ep) (zip idxs eps))"
proof (induction eps arbitrary: ee tr tr' idxs)
  case Nil
  then show ?case by simp
next
  case (Cons ep rest)
  let ?tr1 = "tr @ [AddEntryPoint tu (name ep) (slangStage ep)]"
  let ?idx = "spAddEntryPoint c ?tr1"
  let ?tr2 = "?tr1 @ setEntryPointSpecializationArgs ?idx 0 spArgs"
  from Cons.prems obtain idxs' where
    rec: "addEntryPoints b c options tu spArgs (Suc ee) rest ?tr2 = (tr', Inr idxs')"
    and idxs: "idxs = ?idx # idxs'"
    by (auto simp: Let_def split: if_splits prod.splits sum.splits)
  from Cons.IH [OF rec] show ?case
    using idxs by (simp add: entryPointBlock_eq)
qed

lemma addEntryPoints_grows:
  "\<exists>ys. fst (addEntryPoints b c options tu spArgs ee eps tr) = tr @ ys \<and>
        list_all (\<lambda>y. phase_of y = Populating) ys"
proof (induction eps arbitrary: ee tr)
  case Nil
  then show ?case by simp
next
  case (Cons ep rest)
  let ?tr1 = "tr @ [AddEntryPoint tu (name ep) (slangStage ep)]"
  let ?idx = "spAddEntryPoint c ?tr1"
  let ?tr2 = "?tr1 @ setEntryPointSpecializationArgs ?idx 0 spArgs"
  from Cons.IH [of "Suc ee" ?tr2] obtain ys where
    ys: "fst (addEntryPoints b c options tu spArgs (Suc ee) rest ?tr2) = ?tr2 @ ys"
    and ph: "list_all (\<lambda>y. phase_of y = Populating) ys" by blast
  have blk: "list_all (\<lambda>y. phase_of y = Populating) (entryPointBlock tu spArgs ?idx ep)"
    by (rule entryPointBlock_phase)
  obtain t2 r2 where rec: "addEntryPoints b c options tu spArgs (Suc ee) rest ?tr2 = (t2, r2)"
    by (cases "addEntryPoints b c options tu spArgs (Suc ee) rest ?tr2")
  have "fst (addEntryPoints b c options tu spArgs ee (ep # rest) tr) = tr \<or>
        fst (addEntryPoints b c options tu spArgs ee (ep # rest) tr) = ?tr1 \<or>
        fst (addEntryPoints b c options tu spArgs ee (ep # rest) tr) = t2"
    using rec by (cases r2) (simp_all add: Let_def)
  then consider (a) "fst (addEntryPoints b c options tu spArgs ee (ep # rest) tr) = tr"
    | (b) "fst (addEntryPoints b c options tu spArgs ee (ep # rest) tr) = ?tr1"
    | (c) "fst (addEntryPoints b c options tu spArgs ee (ep # rest) tr)
             = fst (addEntryPoints b c options tu spArgs (Suc ee) rest ?tr2)"
    using rec by auto
  then show ?case
  proof cases
    case a
    then show ?thesis by (intro exI [of _ "[]"]) simp
  next
    case b
    then show ?thesis by (intro exI [of _ "[AddEntryPoint tu (name ep) (slangStage ep)]"]) simp
  next
    case c
    then show ?thesis using ys ph blk
      by (intro exI [of _ "entryPointBlock tu spArgs ?idx ep @ ys"]) (simp add: entryPointBlock_eq)
  qed
qed

text \<open>
  With \<open>SLANG_ASSERT\<close> compiled in, the loop over the entry points either makes every
  call of \<open>entryPointCalls\<close>, the compiler having answered each addition with the
  position of the entry point, or stops at the first position whose returned index is
  not the position.
\<close>

lemma addEntryPoints_asserted:
  assumes "slangAssertOn b" and "\<not> dontAddDefaultEntryPoints options"
  shows "(addEntryPoints b c options tu spArgs ee eps tr =
            (tr @ entryPointCalls tu spArgs ee eps, Inr (map int [ee..<ee + length eps])) \<and>
          (\<forall>k<length eps.
             spAddEntryPoint c (tr @ entryPointCalls tu spArgs ee (take k eps)
                 @ [AddEntryPoint tu (name (eps ! k)) (slangStage (eps ! k))]) = int (ee + k))) \<or>
         (\<exists>k<length eps.
            addEntryPoints b c options tu spArgs ee eps tr =
              (tr @ entryPointCalls tu spArgs ee (take k eps)
                 @ [AddEntryPoint tu (name (eps ! k)) (slangStage (eps ! k))],
               Inl (AssertFail ''entryPointIndex == ee'')) \<and>
            spAddEntryPoint c (tr @ entryPointCalls tu spArgs ee (take k eps)
                 @ [AddEntryPoint tu (name (eps ! k)) (slangStage (eps ! k))]) \<noteq> int (ee + k))"
proof (induction eps arbitrary: ee tr)
  case Nil
  then show ?case by (simp add: entryPointCalls_def)
next
  case (Cons ep rest)
  let ?tr1 = "tr @ [AddEntryPoint tu (name ep) (slangStage ep)]"
  let ?idx = "spAddEntryPoint c ?tr1"
  let ?tr2 = "?tr1 @ setEntryPointSpecializationArgs ?idx 0 spArgs"
  have calls_Cons: "\<And>xs. entryPointCalls tu spArgs ee (ep # xs)
      = entryPointBlock tu spArgs (int ee) ep @ entryPointCalls tu spArgs (Suc ee) xs"
    by (simp add: entryPointCalls_def)
  show ?case
  proof (cases "?idx = int ee")
    case False
    then have "addEntryPoints b c options tu spArgs ee (ep # rest) tr =
        (?tr1, Inl (AssertFail ''entryPointIndex == ee''))"
      using assms by (simp add: Let_def)
    with False show ?thesis
      by (intro disjI2 exI [of _ 0]) (simp add: entryPointCalls_def)
  next
    case True
    then have step: "addEntryPoints b c options tu spArgs ee (ep # rest) tr =
        (case addEntryPoints b c options tu spArgs (Suc ee) rest ?tr2 of
           (tr2, Inl e) \<Rightarrow> (tr2, Inl e)
         | (tr2, Inr idxs) \<Rightarrow> (tr2, Inr (int ee # idxs)))"
      using assms by (simp add: Let_def)
    have tr2: "?tr2 = tr @ entryPointBlock tu spArgs (int ee) ep"
      using True by (simp add: entryPointBlock_eq)
    have pre: "tr @ entryPointCalls tu spArgs ee (take (Suc k) (ep # rest))
          @ [AddEntryPoint tu (name ((ep # rest) ! Suc k)) (slangStage ((ep # rest) ! Suc k))]
        = ?tr2 @ entryPointCalls tu spArgs (Suc ee) (take k rest)
          @ [AddEntryPoint tu (name (rest ! k)) (slangStage (rest ! k))]" for k
      using tr2 by (simp add: calls_Cons)
    from Cons.IH [of "Suc ee" ?tr2] show ?thesis
    proof
      assume ok: "addEntryPoints b c options tu spArgs (Suc ee) rest ?tr2 =
          (?tr2 @ entryPointCalls tu spArgs (Suc ee) rest, Inr (map int [Suc ee..<Suc ee + length rest])) \<and>
          (\<forall>k<length rest.
             spAddEntryPoint c (?tr2 @ entryPointCalls tu spArgs (Suc ee) (take k rest)
                 @ [AddEntryPoint tu (name (rest ! k)) (slangStage (rest ! k))]) = int (Suc ee + k))"
      have "int ee # map int [Suc ee..<Suc ee + length rest] = map int [ee..<ee + length (ep # rest)]"
        using upt_shift [of ee "length rest"] by (simp del: upt_Suc)
      then have res: "addEntryPoints b c options tu spArgs ee (ep # rest) tr =
          (tr @ entryPointCalls tu spArgs ee (ep # rest), Inr (map int [ee..<ee + length (ep # rest)]))"
        using ok step tr2 by (simp add: calls_Cons)
      have answers: "\<forall>k<length (ep # rest).
             spAddEntryPoint c (tr @ entryPointCalls tu spArgs ee (take k (ep # rest))
                 @ [AddEntryPoint tu (name ((ep # rest) ! k)) (slangStage ((ep # rest) ! k))]) = int (ee + k)"
      proof (intro allI impI)
        fix k assume k: "k < length (ep # rest)"
        show "spAddEntryPoint c (tr @ entryPointCalls tu spArgs ee (take k (ep # rest))
                 @ [AddEntryPoint tu (name ((ep # rest) ! k)) (slangStage ((ep # rest) ! k))]) = int (ee + k)"
        proof (cases k)
          case 0
          then show ?thesis using True by (simp add: entryPointCalls_def)
        next
          case (Suc k')
          with k have "k' < length rest" by simp
          with ok have "spAddEntryPoint c (?tr2 @ entryPointCalls tu spArgs (Suc ee) (take k' rest)
                 @ [AddEntryPoint tu (name (rest ! k')) (slangStage (rest ! k'))]) = int (Suc ee + k')"
            by blast
          then show ?thesis unfolding Suc pre by simp
        qed
      qed
      from res answers show ?thesis by blast
    next
      assume "\<exists>k<length rest.
            addEntryPoints b c options tu spArgs (Suc ee) rest ?tr2 =
              (?tr2 @ entryPointCalls tu spArgs (Suc ee) (take k rest)
                 @ [AddEntryPoint tu (name (rest ! k)) (slangStage (rest ! k))],
               Inl (AssertFail ''entryPointIndex == ee'')) \<and>
            spAddEntryPoint c (?tr2 @ entryPointCalls tu spArgs (Suc ee) (take k rest)
                 @ [AddEntryPoint tu (name (rest ! k)) (slangStage (rest ! k))]) \<noteq> int (Suc ee + k)"
      then obtain k where k: "k < length rest"
        and bad: "addEntryPoints b c options tu spArgs (Suc ee) rest ?tr2 =
              (?tr2 @ entryPointCalls tu spArgs (Suc ee) (take k rest)
                 @ [AddEntryPoint tu (name (rest ! k)) (slangStage (rest ! k))],
               Inl (AssertFail ''entryPointIndex == ee''))"
        and ne: "spAddEntryPoint c (?tr2 @ entryPointCalls tu spArgs (Suc ee) (take k rest)
                 @ [AddEntryPoint tu (name (rest ! k)) (slangStage (rest ! k))]) \<noteq> int (Suc ee + k)"
        by blast
      show ?thesis
        apply (intro disjI2 exI [of _ "Suc k"])
        using k bad ne step pre [of k] by simp
    qed
  qed
qed

lemma addEntryPoints_disallowed:
  "slangAssertOn b \<Longrightarrow> dontAddDefaultEntryPoints options \<Longrightarrow> eps \<noteq> [] \<Longrightarrow>
     addEntryPoints b c options tu spArgs ee eps tr = (tr, Inl (AssertFail ''false''))"
  by (cases eps) simp_all

lemma discoverEntryPoints_Inr:
  "discoverEntryPoints b ee reflection acc tr = (tr', Inr eps) \<Longrightarrow>
     eps = acc @ map reflectedEntryPoint reflection \<and>
     tr' = tr @ map GetEntryPointByIndex [ee..<ee + length reflection]"
proof (induction reflection arbitrary: ee acc tr)
  case Nil
  then show ?case by simp
next
  case (Cons r rest)
  obtain n s where r: "r = (n, s)" by (cases r)
  from Cons.prems r have
    rec: "discoverEntryPoints b (Suc ee) rest (acc @ [\<lparr>name = n, slangStage = s\<rparr>])
            (tr @ [GetEntryPointByIndex ee]) = (tr', Inr eps)"
    by (simp add: Let_def split: if_splits)
  from Cons.IH [OF rec] show ?case
    using r upt_shift [of ee "length rest"] by (simp add: reflectedEntryPoint_def del: upt_Suc)
qed

lemma discoverEntryPoints_grows:
  "\<exists>ys. fst (discoverEntryPoints b ee reflection acc tr) = tr @ ys \<and>
        list_all (\<lambda>y. phase_of y = Reflecting) ys"
proof (induction reflection arbitrary: ee acc tr)
  case Nil
  then show ?case by simp
next
  case (Cons r rest)
  obtain n s where r: "r = (n, s)" by (cases r)
  let ?tr1 = "tr @ [GetEntryPointByIndex ee]"
  from Cons.IH [of "Suc ee" "acc @ [\<lparr>name = n, slangStage = s\<rparr>]" ?tr1] obtain ys where
    ys: "fst (discoverEntryPoints b (Suc ee) rest (acc @ [\<lparr>name = n, slangStage = s\<rparr>]) ?tr1) = ?tr1 @ ys"
    and ph: "list_all (\<lambda>y. phase_of y = Reflecting) ys" by blast
  show ?case
  proof (cases "slangAssertOn b \<and> n = None")
    case True
    then show ?thesis using r by (intro exI [of _ "[GetEntryPointByIndex ee]"]) (simp add: Let_def)
  next
    case False
    then show ?thesis using r ys ph
      by (intro exI [of _ "GetEntryPointByIndex ee # ys"]) (auto simp: Let_def)
  qed
qed

lemma discoverEntryPoints_total:
  "\<not> slangAssertOn b \<or> list_all (\<lambda>r. fst r \<noteq> None) reflection \<Longrightarrow>
     discoverEntryPoints b ee reflection acc tr =
       (tr @ map GetEntryPointByIndex [ee..<ee + length reflection],
        Inr (acc @ map reflectedEntryPoint reflection))"
proof (induction reflection arbitrary: ee acc tr)
  case Nil
  then show ?case by simp
next
  case (Cons r rest)
  obtain n s where r: "r = (n, s)" by (cases r)
  from Cons.prems have rest: "\<not> slangAssertOn b \<or> list_all (\<lambda>r. fst r \<noteq> None) rest"
    by auto
  from Cons.prems r have go: "\<not> (slangAssertOn b \<and> n = None)" by auto
  show ?case
    using Cons.IH [OF rest, of "Suc ee" "acc @ [\<lparr>name = n, slangStage = s\<rparr>]" "tr @ [GetEntryPointByIndex ee]"]
      r go upt_shift [of ee "length rest"]
    by (simp add: Let_def reflectedEntryPoint_def del: upt_Suc)
qed

subsection \<open>Packaging\<close>

lemma codeQueries_Cons:
  "ee < n \<Longrightarrow> codeQueries ee n = GetEntryPointCode (int ee) # codeQueries (Suc ee) n"
  by (simp add: codeQueries_def upt_conv_Cons del: upt_Suc)

lemma codeQueries_single: "codeQueries ee (Suc ee) = [GetEntryPointCode (int ee)]"
  by (simp add: codeQueries_def)

lemma codeQueries_empty: "codeQueries ee ee = []"
  by (simp add: codeQueries_def)

lemma codeQueries_phase: "list_all (\<lambda>y. phase_of y = Packaging) (codeQueries ee n)"
  by (simp add: codeQueries_def list_all_iff)

lemma packageKernels_step:
  "translateStage b (slangStage ep) = Inr g \<Longrightarrow>
     packageKernels b c ee (ep # rest) kds tr =
       packageKernels b c (Suc ee) rest
         (kds @ [kernelOf b c (tr @ [GetEntryPointCode (int ee)]) ep])
         (tr @ [GetEntryPointCode (int ee)])"
  by (cases "spGetEntryPointCode c (tr @ [GetEntryPointCode (int ee)])")
     (simp add: kernelOf_def)

lemma packageKernels_stop:
  "translateStage b (slangStage ep) = Inl e \<Longrightarrow>
     packageKernels b c ee (ep # rest) kds tr = (tr @ [GetEntryPointCode (int ee)], Inl e)"
  by (cases "spGetEntryPointCode c (tr @ [GetEntryPointCode (int ee)])") simp

declare packageKernels.simps(2) [simp del]

lemma kernels_shift:
  "map (\<lambda>(i, ep). kernelOf b c ((tr @ [GetEntryPointCode (int ee)]) @ codeQueries (Suc ee) (Suc i)) ep)
       (enumerate (Suc ee) rest)
   = map (\<lambda>(i, ep). kernelOf b c (tr @ codeQueries ee (Suc i)) ep) (enumerate (Suc ee) rest)"
proof (rule map_cong [OF refl])
  fix x assume x: "x \<in> set (enumerate (Suc ee) rest)"
  obtain i ep where xi: "x = (i, ep)" by (cases x)
  with x have "Suc ee \<le> i" by (simp add: in_set_enumerate_eq)
  then have "codeQueries ee (Suc i) = GetEntryPointCode (int ee) # codeQueries (Suc ee) (Suc i)"
    by (intro codeQueries_Cons) simp
  then show "(case x of (i, ep) \<Rightarrow>
        kernelOf b c ((tr @ [GetEntryPointCode (int ee)]) @ codeQueries (Suc ee) (Suc i)) ep)
      = (case x of (i, ep) \<Rightarrow> kernelOf b c (tr @ codeQueries ee (Suc i)) ep)"
    using xi by simp
qed

lemma packageKernels_Inr:
  "packageKernels b c ee eps kds tr = (tr', Inr ks) \<Longrightarrow>
     ks = kds @ map (\<lambda>(i, ep). kernelOf b c (tr @ codeQueries ee (Suc i)) ep) (enumerate ee eps) \<and>
     tr' = tr @ codeQueries ee (ee + length eps) \<and>
     list_all (\<lambda>ep. \<exists>g. translateStage b (slangStage ep) = Inr g) eps"
proof (induction eps arbitrary: ee kds tr)
  case Nil
  then show ?case by (simp add: codeQueries_empty)
next
  case (Cons ep rest)
  let ?q = "GetEntryPointCode (int ee)"
  show ?case
  proof (cases "translateStage b (slangStage ep)")
    case (Inl e)
    with Cons.prems show ?thesis by (simp add: packageKernels_stop)
  next
    case (Inr g)
    with Cons.prems have rec: "packageKernels b c (Suc ee) rest (kds @ [kernelOf b c (tr @ [?q]) ep]) (tr @ [?q])
        = (tr', Inr ks)"
      by (simp add: packageKernels_step)
    have q: "codeQueries ee (ee + length (ep # rest)) = ?q # codeQueries (Suc ee) (Suc ee + length rest)"
      using codeQueries_Cons [of ee "ee + length (ep # rest)"] by simp
    from Cons.IH [OF rec] show ?thesis
      using Inr q by (simp add: kernels_shift codeQueries_single del: append_assoc)
  qed
qed

lemma packageKernels_total:
  "list_all (\<lambda>ep. \<exists>g. translateStage b (slangStage ep) = Inr g) eps \<Longrightarrow>
     packageKernels b c ee eps kds tr =
       (tr @ codeQueries ee (ee + length eps),
        Inr (kds @ map (\<lambda>(i, ep). kernelOf b c (tr @ codeQueries ee (Suc i)) ep) (enumerate ee eps)))"
proof (induction eps arbitrary: ee kds tr)
  case Nil
  then show ?case by (simp add: codeQueries_empty)
next
  case (Cons ep rest)
  let ?q = "GetEntryPointCode (int ee)"
  from Cons.prems obtain g where g: "translateStage b (slangStage ep) = Inr g"
    and rest: "list_all (\<lambda>ep. \<exists>g. translateStage b (slangStage ep) = Inr g) rest"
    by auto
  have q: "codeQueries ee (ee + length (ep # rest)) = ?q # codeQueries (Suc ee) (Suc ee + length rest)"
    using codeQueries_Cons [of ee "ee + length (ep # rest)"] by simp
  show ?case
    using Cons.IH [OF rest, of "Suc ee" "kds @ [kernelOf b c (tr @ [?q]) ep]" "tr @ [?q]"] q
    by (simp add: packageKernels_step [OF g] kernels_shift codeQueries_single del: append_assoc)
qed

lemma packageKernels_Inl:
  "packageKernels b c ee eps kds tr = (tr', Inl e) \<Longrightarrow>
     e = AssertFail ''unhandled case'' \<and> slangAssertOn b \<and>
     (\<exists>ep n. ep \<in> set eps \<and> slangStage ep = SLANG_STAGE_UNLISTED n)"
proof (induction eps arbitrary: ee kds tr)
  case Nil
  then show ?case by simp
next
  case (Cons ep rest)
  show ?case
  proof (cases "translateStage b (slangStage ep)")
    case (Inl e')
    with Cons.prems have "e = e'" by (simp add: packageKernels_stop)
    with Inl show ?thesis
      by (cases "slangStage ep") (auto split: if_splits)
  next
    case (Inr g)
    with Cons.prems Cons.IH show ?thesis
      by (fastforce simp: packageKernels_step)
  qed
qed

lemma packageKernels_grows:
  "grows (\<lambda>y. phase_of y = Packaging) tr (fst (packageKernels b c ee eps kds tr))"
proof (induction eps arbitrary: ee kds tr)
  case Nil
  then show ?case by (simp add: grows_def)
next
  case (Cons ep rest)
  let ?q = "GetEntryPointCode (int ee)"
  show ?case
  proof (cases "translateStage b (slangStage ep)")
    case (Inl e)
    then show ?thesis by (simp add: packageKernels_stop grows_def)
  next
    case (Inr g)
    from Cons.IH [where ee = "Suc ee" and kds = "kds @ [kernelOf b c (tr @ [?q]) ep]" and tr = "tr @ [?q]"]
    obtain ys where "fst (packageKernels b c (Suc ee) rest (kds @ [kernelOf b c (tr @ [?q]) ep]) (tr @ [?q]))
        = (tr @ [?q]) @ ys" and "list_all (\<lambda>y. phase_of y = Packaging) ys"
      unfolding grows_def by blast
    then show ?thesis
      unfolding grows_def packageKernels_step [OF Inr]
      by (intro exI [of _ "?q # ys"]) simp
  qed
qed

subsection \<open>How the log grows\<close>

lemma grows_refl: "grows P tr tr"
  by (simp add: grows_def)

lemma grows_append: "list_all P ys \<Longrightarrow> grows P tr (tr @ ys)"
  by (simp add: grows_def)

lemma grows_trans: "grows P tr tr1 \<Longrightarrow> grows P tr1 tr2 \<Longrightarrow> grows P tr tr2"
  by (auto simp: grows_def)

lemma grows_mono: "grows P tr tr' \<Longrightarrow> (\<And>y. P y \<Longrightarrow> Q y) \<Longrightarrow> grows Q tr tr'"
  by (auto simp: grows_def list_all_iff)

lemma grows_thenDo:
  assumes "grows P tr (fst r)" and "\<And>x t. grows P t (fst (f x t))"
  shows "grows P tr (fst (thenDo r f))"
proof (cases "snd r")
  case (Inl e)
  then show ?thesis using assms(1) by (simp add: thenDo_Inl)
next
  case (Inr x)
  then show ?thesis
    using grows_trans [OF assms(1) assms(2) [of "fst r" x]] by (simp add: thenDo_Inr)
qed

lemma populateRequest_grows:
  "grows (\<lambda>y. phase_of y = Populating) tr (fst (populateRequest b c options input req tr))"
proof -
  let ?tu = "spAddTranslationUnit c (tr @ [AddTranslationUnit (sourceLanguage input) None])"
  let ?t1 = "tr @ [AddTranslationUnit (sourceLanguage input) None,
                   AddTranslationUnitSourceString ?tu (path (source req)) (dataBegin (source req))]"
  let ?t2 = "?t1 @ setGlobalSpecializationArgs 0 (globalSpecializationArgs req)"
  have eq: "populateRequest b c options input req tr =
      addEntryPoints b c options ?tu (entryPointSpecializationArgs req) 0 (entryPoints req) ?t2"
    by (simp add: populateRequest_def addTranslationUnit_def thenDo_def Let_def)
  have "grows (\<lambda>y. phase_of y = Populating) tr ?t1"
    by (intro grows_append) simp
  moreover have "grows (\<lambda>y. phase_of y = Populating) ?t1 ?t2"
    by (intro grows_append setGlobalSpecializationArgs_phase)
  moreover have "grows (\<lambda>y. phase_of y = Populating) ?t2
      (fst (addEntryPoints b c options ?tu (entryPointSpecializationArgs req) 0 (entryPoints req) ?t2))"
    using addEntryPoints_grows [of b c options ?tu "entryPointSpecializationArgs req" 0 "entryPoints req" ?t2]
    by (simp add: grows_def)
  ultimately show ?thesis
    unfolding eq by (blast intro: grows_trans)
qed

lemma runCompile_grows:
  "grows (\<lambda>y. phase_of y = Compiling) tr (fst (runCompile c tr))"
  by (cases "spGetDiagnosticOutput c (tr @ [SetLineDirectiveMode_NONE, Compile, GetDiagnosticOutput])")
     (simp_all add: runCompile_def Let_def grows_def)

lemma resolveEntryPoints_grows:
  "grows (\<lambda>y. phase_of y = Reflecting) tr (fst (resolveEntryPoints b c input req tr))"
proof (cases "passThrough input = SLANG_PASS_THROUGH_NONE")
  case False
  then show ?thesis by (simp add: resolveEntryPoints_def grows_refl)
next
  case True
  let ?t2 = "tr @ [ProgramLayout_get, GetEntryPointCount]"
  have a: "grows (\<lambda>y. phase_of y = Reflecting) tr ?t2"
    by (intro grows_append) simp
  have b: "grows (\<lambda>y. phase_of y = Reflecting) ?t2
      (fst (discoverEntryPoints b 0 (ProgramLayout c (tr @ [ProgramLayout_get])) [] ?t2))"
    using discoverEntryPoints_grows [of b 0 "ProgramLayout c (tr @ [ProgramLayout_get])" "[]" ?t2]
    by (simp add: grows_def)
  show ?thesis
  proof (cases "slangAssertOn b \<and> ProgramLayout c (tr @ [ProgramLayout_get]) = []")
    case True
    then show ?thesis using a \<open>passThrough input = SLANG_PASS_THROUGH_NONE\<close>
      by (simp add: resolveEntryPoints_def Let_def)
  next
    case False
    then have "fst (resolveEntryPoints b c input req tr) =
        fst (discoverEntryPoints b 0 (ProgramLayout c (tr @ [ProgramLayout_get])) [] ?t2)"
      using \<open>passThrough input = SLANG_PASS_THROUGH_NONE\<close>
      by (auto simp: resolveEntryPoints_def Let_def)
    then show ?thesis using grows_trans [OF a b] by simp
  qed
qed

lemma resolveEntryPoints_passThrough:
  "passThrough input \<noteq> SLANG_PASS_THROUGH_NONE \<Longrightarrow>
     resolveEntryPoints b c input req tr = (tr, Inr (entryPoints req))"
  by (simp add: resolveEntryPoints_def)

lemma extractKernels_grows:
  "grows (\<lambda>y. phase_of y = Reflecting \<or> phase_of y = Packaging) tr
     (fst (extractKernels b c input req tr))"
  unfolding extractKernels_def
  by (intro grows_thenDo grows_mono [OF resolveEntryPoints_grows] grows_mono [OF packageKernels_grows]) simp_all

lemma extractKernels_passThrough_grows:
  "passThrough input \<noteq> SLANG_PASS_THROUGH_NONE \<Longrightarrow>
     grows (\<lambda>y. phase_of y = Packaging) tr (fst (extractKernels b c input req tr))"
  by (simp add: extractKernels_def resolveEntryPoints_passThrough thenDo_def packageKernels_grows)

subsection \<open>The whole sequence\<close>

lemma afterSettings_phases:
  "phase_of y = Populating \<Longrightarrow> afterSettings y"
  "phase_of y = Compiling \<Longrightarrow> afterSettings y"
  "phase_of y = Reflecting \<or> phase_of y = Packaging \<Longrightarrow> afterSettings y"
  by (auto simp: afterSettings_def)

lemma rest_grows:
  "grows afterSettings t
     (fst (thenDo (thenDo (populateRequest b c options input req t) (\<lambda>_ tr. runCompile c tr))
             (\<lambda>_ tr. extractKernels b c input req tr)))"
  by (intro grows_thenDo grows_mono [OF populateRequest_grows] grows_mono [OF runCompile_grows]
        grows_mono [OF extractKernels_grows] afterSettings_phases)

lemma rest_grows_passThrough:
  assumes "passThrough input \<noteq> SLANG_PASS_THROUGH_NONE"
  shows "grows (\<lambda>y. \<not> isReflectionCall y) t
     (fst (thenDo (thenDo (populateRequest b c options input req t) (\<lambda>_ tr. runCompile c tr))
             (\<lambda>_ tr. extractKernels b c input req tr)))"
  by (intro grows_thenDo grows_mono [OF populateRequest_grows] grows_mono [OF runCompile_grows]
        grows_mono [OF extractKernels_passThrough_grows [OF assms]])
     (simp_all add: isReflectionCall_def)

lemma compileSteps_split:
  "compileSteps b c sess options input req =
     thenDo (configureRequest b c input req [CreateCompileRequest sess]) (\<lambda>_ t.
       thenDo (thenDo (populateRequest b c options input req t) (\<lambda>_ tr. runCompile c tr))
         (\<lambda>_ tr. extractKernels b c input req tr))"
  by (simp add: compileSteps_def buildAndCompile_def thenDo_assoc)

text \<open>
  The log of every run: the creation of the request, then a part \<open>ys\<close> made of settings,
  then a part \<open>zs\<close> made of later calls. Either \<open>ys\<close> is the whole list of settings in
  order, or the run stopped among the settings and nothing follows.
\<close>

lemma compileSteps_log:
  "\<exists>ys zs. fst (compileSteps b c sess options input req) = CreateCompileRequest sess # ys @ zs \<and>
      (ys = requestBuildingOrder c input req \<or>
       zs = [] \<and> (ys = compileArgCalls req \<or> ys = compileArgCalls req @ targetCalls c input)) \<and>
      list_all afterSettings zs \<and>
      (passThrough input = SLANG_PASS_THROUGH_NONE \<or> list_all (\<lambda>y. \<not> isReflectionCall y) zs) \<and>
      (snd (compileSteps b c sess options input req) = Inl (AssertFail ''unexpected'') \<or>
       (\<exists>r. snd (compileSteps b c sess options input req) = Inl (Return r)) \<or>
       ys = requestBuildingOrder c input req)"
proof -
  let ?t0 = "[CreateCompileRequest sess]"
  let ?rest = "\<lambda>(_::unit) t.
       thenDo (thenDo (populateRequest b c options input req t) (\<lambda>_ tr. runCompile c tr))
         (\<lambda>_ tr. extractKernels b c input req tr)"
  let ?order = "requestBuildingOrder c input req"
  note split = compileSteps_split [of b c sess options input req]
  have stopped: "\<And>ys e. configureRequest b c input req ?t0 = (?t0 @ ys, Inl e) \<Longrightarrow>
      compileSteps b c sess options input req = (CreateCompileRequest sess # ys @ [], Inl e)"
    by (simp add: split thenDo_def)
  from configureRequest_cases [of b c input req ?t0] show ?thesis
  proof (elim disjE exE conjE)
    fix r assume "SLANG_FAILED r"
      and "configureRequest b c input req ?t0 = (?t0 @ compileArgCalls req, Inl (Return r))"
    from stopped [OF this(2)] show ?thesis
      by (intro exI [of _ "compileArgCalls req"] exI [of _ "[]"]) simp
  next
    fix n assume "cAssertOn b"
      and "configureRequest b c input req ?t0 =
          (?t0 @ compileArgCalls req @ targetCalls c input, Inl (AssertFail ''unexpected''))"
    from stopped [OF this(2)] show ?thesis
      by (intro exI [of _ "compileArgCalls req @ targetCalls c input"] exI [of _ "[]"]) simp
  next
    fix r assume "SLANG_FAILED r"
      and "configureRequest b c input req ?t0 = (?t0 @ ?order, Inl (Return r))"
    from stopped [OF this(2)] show ?thesis
      by (intro exI [of _ ?order] exI [of _ "[]"]) simp
  next
    assume ok: "configureRequest b c input req ?t0 = (?t0 @ ?order, Inr ())"
    then have eq: "compileSteps b c sess options input req = ?rest () (?t0 @ ?order)"
      by (simp add: split thenDo_def)
    from rest_grows [of "?t0 @ ?order" b c options input req] obtain zs where
      zs: "fst (?rest () (?t0 @ ?order)) = (?t0 @ ?order) @ zs" and after: "list_all afterSettings zs"
      unfolding grows_def by blast
    have pt: "passThrough input = SLANG_PASS_THROUGH_NONE \<or> list_all (\<lambda>y. \<not> isReflectionCall y) zs"
    proof (cases "passThrough input = SLANG_PASS_THROUGH_NONE")
      case False
      from rest_grows_passThrough [OF False, of "?t0 @ ?order" b c options req] obtain zs' where
        "fst (?rest () (?t0 @ ?order)) = (?t0 @ ?order) @ zs'" and "list_all (\<lambda>y. \<not> isReflectionCall y) zs'"
        unfolding grows_def by blast
      with zs show ?thesis by simp
    qed simp
    show ?thesis
      using zs after pt unfolding eq
      by (intro exI [of _ ?order] exI [of _ zs]) simp
  qed
qed

text \<open>A run whose steps all succeed, step by step.\<close>

lemma compileSteps_Inr:
  assumes "compileSteps b c sess options input req = (tr', Inr ks)"
  shows "\<exists>t3 eps. snd (buildAndCompile b c sess options input req) = Inr () \<and>
      resolveEntryPoints b c input req (fst (buildAndCompile b c sess options input req)) = (t3, Inr eps) \<and>
      packageKernels b c 0 eps [] t3 = (tr', Inr ks)"
proof -
  from thenDo_result [OF assms [unfolded compileSteps_def]] obtain u where
    u: "snd (buildAndCompile b c sess options input req) = Inr u"
    and ex: "extractKernels b c input req (fst (buildAndCompile b c sess options input req)) = (tr', Inr ks)"
    by blast
  from thenDo_result [OF ex [unfolded extractKernels_def]] obtain eps where
    "snd (resolveEntryPoints b c input req (fst (buildAndCompile b c sess options input req))) = Inr eps"
    and "packageKernels b c 0 eps []
           (fst (resolveEntryPoints b c input req (fst (buildAndCompile b c sess options input req))))
         = (tr', Inr ks)"
    by blast
  then show ?thesis using u
    by (intro exI [of _ "fst (resolveEntryPoints b c input req (fst (buildAndCompile b c sess options input req)))"]
          exI [of _ eps]) (simp add: prod_eq_iff)
qed

lemma compileSteps_after_compile:
  assumes "snd (buildAndCompile b c sess options input req) = Inr ()"
  shows "compileSteps b c sess options input req =
     thenDo (resolveEntryPoints b c input req (fst (buildAndCompile b c sess options input req)))
       (\<lambda>eps t. packageKernels b c 0 eps [] t)"
  using assms by (simp add: compileSteps_def thenDo_Inr extractKernels_def)

lemma compileProgram_outcome:
  "run_outcome (compileProgram b c sess options input req out0) =
     (case snd (compileSteps b c sess options input req) of Inl e \<Rightarrow> e | Inr ks \<Rightarrow> Return SLANG_OK)"
  by (cases "compileSteps b c sess options input req"; cases "snd (compileSteps b c sess options input req)")
     (simp_all add: compileProgram_def Let_def)

lemma compileProgram_calls:
  "run_calls (compileProgram b c sess options input req out0) = fst (compileSteps b c sess options input req)"
  by (cases "compileSteps b c sess options input req"; cases "snd (compileSteps b c sess options input req)")
     (simp_all add: compileProgram_def Let_def)

lemma compileProgram_out:
  "run_out (compileProgram b c sess options input req out0) =
     (case snd (compileSteps b c sess options input req) of
        Inl e \<Rightarrow> \<lparr>desc_pipelineType = PipelineType_Unknown, kernelDescs = [],
                   request = Some (spCreateCompileRequest c sess), session = Some sess\<rparr>
      | Inr ks \<Rightarrow> \<lparr>desc_pipelineType = pipelineType input, kernelDescs = ks,
                    request = Some (spCreateCompileRequest c sess), session = Some sess\<rparr>)"
  by (cases "compileSteps b c sess options input req"; cases "snd (compileSteps b c sess options input req)")
     (simp_all add: compileProgram_def Let_def Output_reset_def Output_set_def)

text \<open>A returned failure code is a failure: \<open>SLANG_OK\<close> is returned at the end only.\<close>

lemma thenDo_Inl_cases:
  "snd (thenDo r f) = Inl e \<Longrightarrow> snd r = Inl e \<or> (\<exists>x. snd r = Inr x \<and> snd (f x (fst r)) = Inl e)"
  by (cases r; cases "snd r") (simp_all add: thenDo_def)

lemma configureRequest_Return:
  "snd (configureRequest b c input req t) = Inl (Return r) \<Longrightarrow> SLANG_FAILED r"
  using configureRequest_cases [of b c input req t] by auto

lemma addEntryPoints_no_Return:
  "snd (addEntryPoints b c options tu spArgs ee eps tr) \<noteq> Inl (Return r)"
proof (induction eps arbitrary: ee tr)
  case Nil
  then show ?case by simp
next
  case (Cons ep rest)
  let ?tr1 = "tr @ [AddEntryPoint tu (name ep) (slangStage ep)]"
  let ?tr2 = "?tr1 @ setEntryPointSpecializationArgs (spAddEntryPoint c ?tr1) 0 spArgs"
  obtain t2 r2 where rec: "addEntryPoints b c options tu spArgs (Suc ee) rest ?tr2 = (t2, r2)"
    by (cases "addEntryPoints b c options tu spArgs (Suc ee) rest ?tr2")
  with Cons.IH [of "Suc ee" ?tr2] have "r2 \<noteq> Inl (Return r)" by simp
  then show ?case using rec by (cases r2) (simp_all add: Let_def)
qed

lemma populateRequest_no_Return:
  "snd (populateRequest b c options input req t) \<noteq> Inl (Return r)"
  by (simp add: populateRequest_def addTranslationUnit_def thenDo_def Let_def addEntryPoints_no_Return)

lemma runCompile_Return:
  "snd (runCompile c t) = Inl (Return r) \<Longrightarrow> SLANG_FAILED r"
  by (simp add: runCompile_def Let_def split: if_splits)

lemma discoverEntryPoints_no_Return:
  "snd (discoverEntryPoints b ee reflection acc tr) \<noteq> Inl (Return r)"
proof (induction reflection arbitrary: ee acc tr)
  case Nil
  then show ?case by simp
next
  case (Cons x rest)
  obtain n s where x: "x = (n, s)" by (cases x)
  show ?case using Cons.IH x by (simp add: Let_def)
qed

lemma resolveEntryPoints_no_Return:
  "snd (resolveEntryPoints b c input req t) \<noteq> Inl (Return r)"
  by (simp add: resolveEntryPoints_def Let_def discoverEntryPoints_no_Return)

lemma packageKernels_no_Return:
  "snd (packageKernels b c ee eps kds t) \<noteq> Inl (Return r)"
proof
  assume a: "snd (packageKernels b c ee eps kds t) = Inl (Return r)"
  then have "packageKernels b c ee eps kds t = (fst (packageKernels b c ee eps kds t), Inl (Return r))"
    by (simp add: prod_eq_iff)
  from packageKernels_Inl [OF this] show False by simp
qed

lemma compileSteps_Return_failed:
  assumes "snd (compileSteps b c sess options input req) = Inl (Return r)"
  shows "SLANG_FAILED r"
proof -
  from thenDo_Inl_cases [OF assms [unfolded compileSteps_def]]
  show ?thesis
  proof (elim disjE exE conjE)
    assume "snd (buildAndCompile b c sess options input req) = Inl (Return r)"
    from thenDo_Inl_cases [OF this [unfolded buildAndCompile_def]] show ?thesis
    proof (elim disjE exE conjE)
      assume "snd (configureRequest b c input req [CreateCompileRequest sess]) = Inl (Return r)"
      then show ?thesis by (rule configureRequest_Return)
    next
      fix x
      assume "snd (thenDo (populateRequest b c options input req
                  (fst (configureRequest b c input req [CreateCompileRequest sess])))
                (\<lambda>_. runCompile c)) = Inl (Return r)"
      from thenDo_Inl_cases [OF this] show ?thesis
        using populateRequest_no_Return runCompile_Return by blast
    qed
  next
    fix x
    assume "snd (extractKernels b c input req (fst (buildAndCompile b c sess options input req)))
              = Inl (Return r)"
    from thenDo_Inl_cases [OF this [unfolded extractKernels_def]] show ?thesis
      using resolveEntryPoints_no_Return packageKernels_no_Return by blast
  qed
qed

text \<open>A run that returns \<open>SLANG_OK\<close> went through every step.\<close>

lemma compileProgram_ok:
  assumes "run_outcome (compileProgram b c sess options input req out0) = Return SLANG_OK"
  shows "\<exists>ks. snd (compileSteps b c sess options input req) = Inr ks"
proof (cases "snd (compileSteps b c sess options input req)")
  case (Inr ks)
  then show ?thesis by blast
next
  case (Inl e)
  with assms have "e = Return SLANG_OK" by (simp add: compileProgram_outcome)
  with Inl have "SLANG_FAILED SLANG_OK"
    by (intro compileSteps_Return_failed [of b c sess options input req]) simp
  then show ?thesis by (simp add: SLANG_FAILED_def SLANG_OK_def)
qed

text \<open>Populating the request is the loop over the entry points, after the translation unit.\<close>

lemma populateRequest_eq:
  "populateRequest b c options input req tr =
     addEntryPoints b c options (translationUnitIndexOf c input tr) (entryPointSpecializationArgs req) 0
       (entryPoints req) (tr @ translationUnitCalls c input req tr)"
  by (simp add: populateRequest_def addTranslationUnit_def thenDo_def Let_def
        translationUnitCalls_def translationUnitIndexOf_def)

subsection \<open>Running the adapter on the test compiler\<close>

lemmas adapter_defs =
  compileProgram_def compileSteps_def buildAndCompile_def configureRequest_def populateRequest_def
  extractKernels_def thenDo_def processCompileArgs_def setTargetAndProfile_def setPassThroughMode_def
  processInputArgs_def addTranslationUnit_def runCompile_def resolveEntryPoints_def
  Output_reset_def Output_set_def SLANG_FAILED_def SLANG_OK_def SLANG_FAIL_def
  packageKernels.simps(2)

lemmas fixture_defs =
  testCompiler_def testInput_def testOptions_def testRequest_def emptyOutput_def
  debugBuild_def releaseBuild_def

subsection \<open>Stage translation\<close>

text \<open>
  C2. Stage translation is a total function of the stage tag: each of the twelve tags of
  the table goes to the renderer tag of the same name, whatever the build; a tag outside
  the table reaches the default branch, which fails the assertion "unhandled case" where
  assertions are compiled in and returns \<open>Unknown\<close> where they are not; \<open>Unknown\<close>
  comes from no other branch, and no two tags of the table share a renderer tag.
\<close>

theorem translateStage_table:
  "translateStage b SLANG_STAGE_VERTEX = Inr Vertex \<and>
   translateStage b SLANG_STAGE_HULL = Inr Hull \<and>
   translateStage b SLANG_STAGE_DOMAIN = Inr Domain \<and>
   translateStage b SLANG_STAGE_GEOMETRY = Inr Geometry \<and>
   translateStage b SLANG_STAGE_FRAGMENT = Inr Fragment \<and>
   translateStage b SLANG_STAGE_COMPUTE = Inr Compute \<and>
   translateStage b SLANG_STAGE_RAY_GENERATION = Inr RayGeneration \<and>
   translateStage b SLANG_STAGE_INTERSECTION = Inr Intersection \<and>
   translateStage b SLANG_STAGE_ANY_HIT = Inr AnyHit \<and>
   translateStage b SLANG_STAGE_CLOSEST_HIT = Inr ClosestHit \<and>
   translateStage b SLANG_STAGE_MISS = Inr Miss \<and>
   translateStage b SLANG_STAGE_CALLABLE = Inr Callable \<and>
   (\<forall>n. translateStage b (SLANG_STAGE_UNLISTED n) =
          (if slangAssertOn b then Inl (AssertFail ''unhandled case'') else Inr Unknown)) \<and>
   (\<forall>s. translateStage b s = Inr Unknown \<longrightarrow> (\<exists>n. s = SLANG_STAGE_UNLISTED n) \<and> \<not> slangAssertOn b) \<and>
   (\<forall>s t g. translateStage b s = Inr g \<and> translateStage b t = Inr g \<and> g \<noteq> Unknown \<longrightarrow> s = t)"
proof -
  have unknown: "\<forall>s. translateStage b s = Inr Unknown \<longrightarrow> (\<exists>n. s = SLANG_STAGE_UNLISTED n) \<and> \<not> slangAssertOn b"
  proof (intro allI impI)
    fix s assume "translateStage b s = Inr Unknown"
    then show "(\<exists>n. s = SLANG_STAGE_UNLISTED n) \<and> \<not> slangAssertOn b"
      by (cases s) (simp_all split: if_splits)
  qed
  have inj: "\<forall>s t g. translateStage b s = Inr g \<and> translateStage b t = Inr g \<and> g \<noteq> Unknown \<longrightarrow> s = t"
  proof (intro allI impI)
    fix s t g
    assume h: "translateStage b s = Inr g \<and> translateStage b t = Inr g \<and> g \<noteq> Unknown"
    then show "s = t"
      by (cases s; cases t; auto split: if_splits)
  qed
  from unknown inj show ?thesis by simp
qed

theorem translateStage_table_witness:
  "translateStage \<lparr>slangAssertOn = False, cAssertOn = False\<rparr> (SLANG_STAGE_UNLISTED 0) = Inr Unknown \<and>
   translateStage \<lparr>slangAssertOn = True, cAssertOn = True\<rparr> (SLANG_STAGE_UNLISTED 0)
     = Inl (AssertFail ''unhandled case'') \<and>
   translateStage \<lparr>slangAssertOn = True, cAssertOn = True\<rparr> SLANG_STAGE_MISS = Inr Miss"
  using translateStage_table [of "\<lparr>slangAssertOn = False, cAssertOn = False\<rparr>"]
    translateStage_table [of "\<lparr>slangAssertOn = True, cAssertOn = True\<rparr>"]
  by simp

subsection \<open>The kernels of a compiled program\<close>

lemma kernelOf_names:
  "map entryPointName (map (\<lambda>(i, ep). kernelOf b c (f i) ep) (enumerate n eps)) = map name eps"
  by (induction eps arbitrary: n) (simp_all add: kernelOf_def)

lemma kernelOf_stages:
  "list_all (\<lambda>ep. \<exists>g. translateStage b (slangStage ep) = Inr g) eps \<Longrightarrow>
     map (\<lambda>k. Inr (stage k)) (map (\<lambda>(i, ep). kernelOf b c (f i) ep) (enumerate n eps))
       = map (\<lambda>ep. translateStage b (slangStage ep)) eps"
  by (induction eps arbitrary: n) (auto simp: kernelOf_def)

text \<open>
  C3. When the compile has succeeded and the entry points \<open>eps\<close> are resolved, the run
  either returns \<open>SLANG_OK\<close> with one kernel descriptor per resolved entry point, in the
  order of resolution: the \<open>i\<close>-th carries the translated stage and the name of the
  \<open>i\<close>-th entry point and the byte range the compiler answered to the code query for
  index \<open>i\<close>; the list is as long as \<open>eps\<close>, the output has the pipeline type of the
  input, and the log ends with one code query per entry point. Or a resolved entry point
  has a stage outside the translation table and the assertion of the translation,
  compiled in, stops the run.
\<close>

theorem kernel_packaging:
  assumes "r = compileProgram b c sess options input req out0"
    and "snd (buildAndCompile b c sess options input req) = Inr ()"
    and "resolveEntryPoints b c input req (fst (buildAndCompile b c sess options input req)) = (t3, Inr eps)"
  shows "(run_outcome r = Return SLANG_OK \<and>
          kernelDescs (run_out r)
            = map (\<lambda>(i, ep). kernelOf b c (t3 @ codeQueries 0 (Suc i)) ep) (enumerate 0 eps) \<and>
          length (kernelDescs (run_out r)) = length eps \<and>
          map entryPointName (kernelDescs (run_out r)) = map name eps \<and>
          map (\<lambda>k. Inr (stage k)) (kernelDescs (run_out r))
            = map (\<lambda>ep. translateStage b (slangStage ep)) eps \<and>
          desc_pipelineType (run_out r) = pipelineType input \<and>
          run_calls r = t3 @ codeQueries 0 (length eps)) \<or>
         (run_outcome r = AssertFail ''unhandled case'' \<and> slangAssertOn b \<and>
          kernelDescs (run_out r) = [] \<and>
          (\<exists>ep n. ep \<in> set eps \<and> slangStage ep = SLANG_STAGE_UNLISTED n))"
proof -
  have steps: "compileSteps b c sess options input req = packageKernels b c 0 eps [] t3"
    using assms(2,3) by (simp add: compileSteps_after_compile thenDo_def)
  obtain tr' res where pk: "packageKernels b c 0 eps [] t3 = (tr', res)"
    by (cases "packageKernels b c 0 eps [] t3")
  show ?thesis
  proof (cases res)
    case (Inl e)
    from packageKernels_Inl [OF pk [unfolded Inl]]
    have "e = AssertFail ''unhandled case''" and "slangAssertOn b"
      and "\<exists>ep n. ep \<in> set eps \<and> slangStage ep = SLANG_STAGE_UNLISTED n"
      by blast+
    then show ?thesis
      using steps pk Inl assms(1) by (simp add: compileProgram_outcome compileProgram_out)
  next
    case (Inr ks)
    from packageKernels_Inr [OF pk [unfolded Inr]]
    have ks: "ks = map (\<lambda>(i, ep). kernelOf b c (t3 @ codeQueries 0 (Suc i)) ep) (enumerate 0 eps)"
      and tr': "tr' = t3 @ codeQueries 0 (length eps)"
      and tl: "list_all (\<lambda>ep. \<exists>g. translateStage b (slangStage ep) = Inr g) eps"
      by simp_all
    have out: "run_outcome r = Return SLANG_OK" "kernelDescs (run_out r) = ks"
      "desc_pipelineType (run_out r) = pipelineType input" "run_calls r = tr'"
      using steps pk Inr assms(1)
      by (simp_all add: compileProgram_outcome compileProgram_out compileProgram_calls)
    have "length ks = length eps" unfolding ks by simp
    moreover have "map entryPointName ks = map name eps"
      unfolding ks by (rule kernelOf_names)
    moreover have "map (\<lambda>k. Inr (stage k)) ks = map (\<lambda>ep. translateStage b (slangStage ep)) eps"
      unfolding ks by (rule kernelOf_stages [OF tl])
    ultimately show ?thesis
      using out ks tr' by simp
  qed
qed

lemma run_graphics_compiled:
  "snd (buildAndCompile debugBuild
         (testCompiler SLANG_OK [(Some ''vertexMain'', SLANG_STAGE_VERTEX),
                                 (Some ''fragmentMain'', SLANG_STAGE_FRAGMENT)]) 7
         (testOptions Graphics)
         (testInput SLANG_SOURCE_LANGUAGE_SLANG SLANG_PASS_THROUGH_NONE)
         (testRequest [] [])) = Inr ()"
  by (simp add: adapter_defs fixture_defs)

lemma run_graphics_resolved:
  "snd (resolveEntryPoints debugBuild
         (testCompiler SLANG_OK [(Some ''vertexMain'', SLANG_STAGE_VERTEX),
                                 (Some ''fragmentMain'', SLANG_STAGE_FRAGMENT)])
         (testInput SLANG_SOURCE_LANGUAGE_SLANG SLANG_PASS_THROUGH_NONE)
         (testRequest [] []) tr)
     = Inr [\<lparr>name = Some ''vertexMain'', slangStage = SLANG_STAGE_VERTEX\<rparr>,
            \<lparr>name = Some ''fragmentMain'', slangStage = SLANG_STAGE_FRAGMENT\<rparr>]"
  by (simp add: adapter_defs fixture_defs)

theorem kernel_packaging_witness:
  "run_outcome (compileProgram debugBuild
         (testCompiler SLANG_OK [(Some ''vertexMain'', SLANG_STAGE_VERTEX),
                                 (Some ''fragmentMain'', SLANG_STAGE_FRAGMENT)]) 7
         (testOptions Graphics)
         (testInput SLANG_SOURCE_LANGUAGE_SLANG SLANG_PASS_THROUGH_NONE)
         (testRequest [] []) emptyOutput) = Return SLANG_OK \<and>
   length (kernelDescs (run_out (compileProgram debugBuild
         (testCompiler SLANG_OK [(Some ''vertexMain'', SLANG_STAGE_VERTEX),
                                 (Some ''fragmentMain'', SLANG_STAGE_FRAGMENT)]) 7
         (testOptions Graphics)
         (testInput SLANG_SOURCE_LANGUAGE_SLANG SLANG_PASS_THROUGH_NONE)
         (testRequest [] []) emptyOutput))) = 2 \<and>
   map entryPointName (kernelDescs (run_out (compileProgram debugBuild
         (testCompiler SLANG_OK [(Some ''vertexMain'', SLANG_STAGE_VERTEX),
                                 (Some ''fragmentMain'', SLANG_STAGE_FRAGMENT)]) 7
         (testOptions Graphics)
         (testInput SLANG_SOURCE_LANGUAGE_SLANG SLANG_PASS_THROUGH_NONE)
         (testRequest [] []) emptyOutput))) = [Some ''vertexMain'', Some ''fragmentMain''] \<and>
   map stage (kernelDescs (run_out (compileProgram debugBuild
         (testCompiler SLANG_OK [(Some ''vertexMain'', SLANG_STAGE_VERTEX),
                                 (Some ''fragmentMain'', SLANG_STAGE_FRAGMENT)]) 7
         (testOptions Graphics)
         (testInput SLANG_SOURCE_LANGUAGE_SLANG SLANG_PASS_THROUGH_NONE)
         (testRequest [] []) emptyOutput))) = [Vertex, Fragment]"
proof -
  let ?c = "testCompiler SLANG_OK [(Some ''vertexMain'', SLANG_STAGE_VERTEX),
                                   (Some ''fragmentMain'', SLANG_STAGE_FRAGMENT)]"
  let ?i = "testInput SLANG_SOURCE_LANGUAGE_SLANG SLANG_PASS_THROUGH_NONE"
  let ?t2 = "fst (buildAndCompile debugBuild ?c 7 (testOptions Graphics) ?i (testRequest [] []))"
  let ?eps = "[\<lparr>name = Some ''vertexMain'', slangStage = SLANG_STAGE_VERTEX\<rparr>,
               \<lparr>name = Some ''fragmentMain'', slangStage = SLANG_STAGE_FRAGMENT\<rparr>]"
  let ?r = "compileProgram debugBuild ?c 7 (testOptions Graphics) ?i (testRequest [] []) emptyOutput"
  have res: "resolveEntryPoints debugBuild ?c ?i (testRequest [] []) ?t2
      = (fst (resolveEntryPoints debugBuild ?c ?i (testRequest [] []) ?t2), Inr ?eps)"
    using run_graphics_resolved [of ?t2] by (simp add: prod_eq_iff)
  from kernel_packaging [OF refl run_graphics_compiled res, of emptyOutput]
  have ok: "run_outcome ?r = Return SLANG_OK"
    and len: "length (kernelDescs (run_out ?r)) = length ?eps"
    and names: "map entryPointName (kernelDescs (run_out ?r)) = map name ?eps"
    and stages: "map (\<lambda>k. Inr (stage k)) (kernelDescs (run_out ?r))
        = map (\<lambda>ep. translateStage debugBuild (slangStage ep)) ?eps"
    by auto
  from stages have "map (Inr \<circ> stage) (kernelDescs (run_out ?r))
      = (map Inr [Vertex, Fragment] :: (outcome + StageType) list)"
    by (simp add: comp_def)
  then have "map stage (kernelDescs (run_out ?r)) = [Vertex, Fragment]"
    unfolding map_map [symmetric] by (simp only: inj_map_eq_map [OF inj_Inr])
  with ok len names show ?thesis by simp
qed

subsection \<open>Resolving the entry points\<close>

lemma settings_not_reflection:
  "list_all (\<lambda>y. \<not> isReflectionCall y) (compileArgCalls req)"
  "list_all (\<lambda>y. \<not> isReflectionCall y) (targetCalls c input)"
  "list_all (\<lambda>y. \<not> isReflectionCall y) (macroCalls lang)"
  "list_all (\<lambda>y. \<not> isReflectionCall y) (passThroughCalls input)"
  by (simp_all add: compileArgCalls_def targetCalls_def macroCalls_def passThroughCalls_def
        isReflectionCall_def list_all_iff split_def)

lemma order_not_reflection:
  "list_all (\<lambda>y. \<not> isReflectionCall y) (requestBuildingOrder c input req)"
  by (simp add: requestBuildingOrder_def settings_not_reflection) (simp add: isReflectionCall_def)

lemma resolveEntryPoints_reflected:
  assumes "passThrough input = SLANG_PASS_THROUGH_NONE"
    and "resolveEntryPoints b c input req tr = (tr', Inr eps)"
  shows "eps = map reflectedEntryPoint (ProgramLayout c (tr @ [ProgramLayout_get])) \<and>
         tr' = tr @ [ProgramLayout_get, GetEntryPointCount]
                 @ map GetEntryPointByIndex [0..<length (ProgramLayout c (tr @ [ProgramLayout_get]))] \<and>
         (slangAssertOn b \<longrightarrow> ProgramLayout c (tr @ [ProgramLayout_get]) \<noteq> [])"
proof -
  let ?refl = "ProgramLayout c (tr @ [ProgramLayout_get])"
  let ?t2 = "tr @ [ProgramLayout_get, GetEntryPointCount]"
  have nz: "\<not> (slangAssertOn b \<and> ?refl = [])"
    using assms by (auto simp: resolveEntryPoints_def Let_def)
  then have "discoverEntryPoints b 0 ?refl [] ?t2 = (tr', Inr eps)"
    using assms by (auto simp: resolveEntryPoints_def Let_def)
  from discoverEntryPoints_Inr [OF this] show ?thesis using nz by simp
qed

text \<open>
  C4. In pass-through mode the resolved entry points are the declared list itself,
  resolving makes no call at all, no run makes a reflection call, and a run that
  succeeds has built its kernels from the declared list, in order. In normal mode the
  resolved entry points are the ones of the compiler's reflection, read by position
  after the count.
\<close>

theorem pass_through_entry_points:
  "(passThrough input \<noteq> SLANG_PASS_THROUGH_NONE \<longrightarrow>
      resolveEntryPoints b c input req tr = (tr, Inr (entryPoints req)) \<and>
      list_all (\<lambda>y. \<not> isReflectionCall y) (run_calls (compileProgram b c sess options input req out0)) \<and>
      (run_outcome (compileProgram b c sess options input req out0) = Return SLANG_OK \<longrightarrow>
         kernelDescs (run_out (compileProgram b c sess options input req out0))
           = map (\<lambda>(i, ep). kernelOf b c
                    (fst (buildAndCompile b c sess options input req) @ codeQueries 0 (Suc i)) ep)
               (enumerate 0 (entryPoints req)))) \<and>
   (passThrough input = SLANG_PASS_THROUGH_NONE \<longrightarrow>
      (\<forall>tr' eps. resolveEntryPoints b c input req tr = (tr', Inr eps) \<longrightarrow>
         eps = map reflectedEntryPoint (ProgramLayout c (tr @ [ProgramLayout_get])) \<and>
         tr' = tr @ [ProgramLayout_get, GetEntryPointCount]
                 @ map GetEntryPointByIndex [0..<length (ProgramLayout c (tr @ [ProgramLayout_get]))]))"
proof (intro conjI impI allI)
  assume pt: "passThrough input \<noteq> SLANG_PASS_THROUGH_NONE"
  show "resolveEntryPoints b c input req tr = (tr, Inr (entryPoints req))"
    by (rule resolveEntryPoints_passThrough [OF pt])
  from compileSteps_log [of b c sess options input req] obtain ys zs where
    log: "run_calls (compileProgram b c sess options input req out0) = CreateCompileRequest sess # ys @ zs"
    and ys: "ys = requestBuildingOrder c input req \<or>
        zs = [] \<and> (ys = compileArgCalls req \<or> ys = compileArgCalls req @ targetCalls c input)"
    and zs: "passThrough input = SLANG_PASS_THROUGH_NONE \<or> list_all (\<lambda>y. \<not> isReflectionCall y) zs"
    unfolding compileProgram_calls by blast
  have "list_all (\<lambda>y. \<not> isReflectionCall y) ys"
    using ys by (auto simp: order_not_reflection settings_not_reflection)
  then show "list_all (\<lambda>y. \<not> isReflectionCall y) (run_calls (compileProgram b c sess options input req out0))"
    using zs pt unfolding log by (simp add: isReflectionCall_def)
next
  assume pt: "passThrough input \<noteq> SLANG_PASS_THROUGH_NONE"
    and ok: "run_outcome (compileProgram b c sess options input req out0) = Return SLANG_OK"
  let ?t2 = "fst (buildAndCompile b c sess options input req)"
  from compileProgram_ok [OF ok] obtain ks where
    ks: "snd (compileSteps b c sess options input req) = Inr ks" by blast
  then have "compileSteps b c sess options input req = (fst (compileSteps b c sess options input req), Inr ks)"
    by (simp add: prod_eq_iff)
  from compileSteps_Inr [OF this] obtain t3 eps where
    res: "resolveEntryPoints b c input req ?t2 = (t3, Inr eps)"
    and pk: "packageKernels b c 0 eps [] t3 = (fst (compileSteps b c sess options input req), Inr ks)"
    by blast
  from res resolveEntryPoints_passThrough [OF pt, of b c req ?t2]
  have "t3 = ?t2" and "eps = entryPoints req" by simp_all
  with packageKernels_Inr [OF pk]
  have "ks = map (\<lambda>(i, ep). kernelOf b c (?t2 @ codeQueries 0 (Suc i)) ep) (enumerate 0 (entryPoints req))"
    by simp
  then show "kernelDescs (run_out (compileProgram b c sess options input req out0))
      = map (\<lambda>(i, ep). kernelOf b c (?t2 @ codeQueries 0 (Suc i)) ep) (enumerate 0 (entryPoints req))"
    using ks by (simp add: compileProgram_out)
next
  fix tr' eps
  assume "passThrough input = SLANG_PASS_THROUGH_NONE"
    and "resolveEntryPoints b c input req tr = (tr', Inr eps)"
  from resolveEntryPoints_reflected [OF this]
  show "eps = map reflectedEntryPoint (ProgramLayout c (tr @ [ProgramLayout_get]))"
    and "tr' = tr @ [ProgramLayout_get, GetEntryPointCount]
                 @ map GetEntryPointByIndex [0..<length (ProgramLayout c (tr @ [ProgramLayout_get]))]"
    by simp_all
qed

lemma run_passThrough_ok:
  "run_outcome (compileProgram debugBuild (testCompiler SLANG_OK []) 7
       (testOptions ShaderProgramType_Compute)
       (testInput SLANG_SOURCE_LANGUAGE_HLSL (SLANG_PASS_THROUGH_TOOL 1))
       (testRequest [\<lparr>name = Some ''computeMain'', slangStage = SLANG_STAGE_COMPUTE\<rparr>] [])
       emptyOutput) = Return SLANG_OK"
  by (simp add: adapter_defs fixture_defs)

lemma run_normal_resolved:
  "resolveEntryPoints debugBuild (testCompiler SLANG_OK [(Some ''raygenMain'', SLANG_STAGE_RAY_GENERATION)])
       (testInput SLANG_SOURCE_LANGUAGE_SLANG SLANG_PASS_THROUGH_NONE) (testRequest [] []) []
     = ([ProgramLayout_get, GetEntryPointCount, GetEntryPointByIndex 0],
        Inr [\<lparr>name = Some ''raygenMain'', slangStage = SLANG_STAGE_RAY_GENERATION\<rparr>])"
  by (simp add: adapter_defs fixture_defs)

theorem pass_through_entry_points_witness:
  "map entryPointName (kernelDescs (run_out (compileProgram debugBuild (testCompiler SLANG_OK []) 7
       (testOptions ShaderProgramType_Compute)
       (testInput SLANG_SOURCE_LANGUAGE_HLSL (SLANG_PASS_THROUGH_TOOL 1))
       (testRequest [\<lparr>name = Some ''computeMain'', slangStage = SLANG_STAGE_COMPUTE\<rparr>] [])
       emptyOutput))) = [Some ''computeMain''] \<and>
   list_all (\<lambda>y. \<not> isReflectionCall y) (run_calls (compileProgram debugBuild (testCompiler SLANG_OK []) 7
       (testOptions ShaderProgramType_Compute)
       (testInput SLANG_SOURCE_LANGUAGE_HLSL (SLANG_PASS_THROUGH_TOOL 1))
       (testRequest [\<lparr>name = Some ''computeMain'', slangStage = SLANG_STAGE_COMPUTE\<rparr>] [])
       emptyOutput)) \<and>
   [\<lparr>name = Some ''raygenMain'', slangStage = SLANG_STAGE_RAY_GENERATION\<rparr>]
     = map reflectedEntryPoint
         (ProgramLayout (testCompiler SLANG_OK [(Some ''raygenMain'', SLANG_STAGE_RAY_GENERATION)])
            [ProgramLayout_get])"
proof -
  let ?pt = "testInput SLANG_SOURCE_LANGUAGE_HLSL (SLANG_PASS_THROUGH_TOOL 1)"
  let ?req = "testRequest [\<lparr>name = Some ''computeMain'', slangStage = SLANG_STAGE_COMPUTE\<rparr>] []"
  have pt: "passThrough ?pt \<noteq> SLANG_PASS_THROUGH_NONE"
    by (simp add: testInput_def)
  have eps: "entryPoints ?req = [\<lparr>name = Some ''computeMain'', slangStage = SLANG_STAGE_COMPUTE\<rparr>]"
    by (simp add: testRequest_def)
  have nm: "passThrough (testInput SLANG_SOURCE_LANGUAGE_SLANG SLANG_PASS_THROUGH_NONE) = SLANG_PASS_THROUGH_NONE"
    by (simp add: testInput_def)
  note a = pass_through_entry_points [of ?pt debugBuild "testCompiler SLANG_OK []" ?req "[]" 7
      "testOptions ShaderProgramType_Compute" emptyOutput]
  note b = pass_through_entry_points [of "testInput SLANG_SOURCE_LANGUAGE_SLANG SLANG_PASS_THROUGH_NONE"
      debugBuild "testCompiler SLANG_OK [(Some ''raygenMain'', SLANG_STAGE_RAY_GENERATION)]"
      "testRequest [] []" "[]" 7 "testOptions RayTracing" emptyOutput]
  from a pt run_passThrough_ok have
    "kernelDescs (run_out (compileProgram debugBuild (testCompiler SLANG_OK []) 7
         (testOptions ShaderProgramType_Compute) ?pt ?req emptyOutput))
       = map (\<lambda>(i, ep). kernelOf debugBuild (testCompiler SLANG_OK [])
                (fst (buildAndCompile debugBuild (testCompiler SLANG_OK []) 7
                   (testOptions ShaderProgramType_Compute) ?pt ?req) @ codeQueries 0 (Suc i)) ep)
           (enumerate 0 (entryPoints ?req))"
    and nr: "list_all (\<lambda>y. \<not> isReflectionCall y) (run_calls (compileProgram debugBuild (testCompiler SLANG_OK []) 7
         (testOptions ShaderProgramType_Compute) ?pt ?req emptyOutput))"
    by blast+
  then have names: "map entryPointName (kernelDescs (run_out (compileProgram debugBuild (testCompiler SLANG_OK []) 7
         (testOptions ShaderProgramType_Compute) ?pt ?req emptyOutput))) = [Some ''computeMain'']"
    by (simp add: eps kernelOf_def)
  from b nm run_normal_resolved have
    "[\<lparr>name = Some ''raygenMain'', slangStage = SLANG_STAGE_RAY_GENERATION\<rparr>]
     = map reflectedEntryPoint
         (ProgramLayout (testCompiler SLANG_OK [(Some ''raygenMain'', SLANG_STAGE_RAY_GENERATION)])
            ([] @ [ProgramLayout_get]))"
    by blast
  with names nr show ?thesis by simp
qed

subsection \<open>The count of reflected entry points\<close>

text \<open>
  C5, as the code has it. In normal mode, with \<open>SLANG_ASSERT\<close> compiled in, after a
  compile that succeeded:
  when the compiler's reflection has no entry point the run ends there with the failed
  assertion on the count, and the output has no kernel; so a run that returns has read
  a count of at least 1.
\<close>

theorem reflected_entry_point_count:
  assumes "slangAssertOn b"
    and "passThrough input = SLANG_PASS_THROUGH_NONE"
    and "snd (buildAndCompile b c sess options input req) = Inr ()"
    and "r = compileProgram b c sess options input req out0"
    and "n = length (ProgramLayout c (fst (buildAndCompile b c sess options input req) @ [ProgramLayout_get]))"
  shows "(n = 0 \<longrightarrow> run_outcome r = AssertFail ''entryPointCount'' \<and> kernelDescs (run_out r) = []) \<and>
         (\<forall>res. run_outcome r = Return res \<longrightarrow> 1 \<le> n)"
proof -
  let ?t2 = "fst (buildAndCompile b c sess options input req)"
  let ?refl = "ProgramLayout c (?t2 @ [ProgramLayout_get])"
  have steps: "compileSteps b c sess options input req =
      thenDo (resolveEntryPoints b c input req ?t2) (\<lambda>eps t. packageKernels b c 0 eps [] t)"
    by (rule compileSteps_after_compile [OF assms(3)])
  have zero: "n = 0 \<longrightarrow> run_outcome r = AssertFail ''entryPointCount'' \<and> kernelDescs (run_out r) = []"
  proof
    assume "n = 0"
    then have "?refl = []" using assms(5) by simp
    then have "resolveEntryPoints b c input req ?t2
        = (?t2 @ [ProgramLayout_get, GetEntryPointCount], Inl (AssertFail ''entryPointCount''))"
      using assms(1,2) by (simp add: resolveEntryPoints_def Let_def)
    then have "snd (compileSteps b c sess options input req) = Inl (AssertFail ''entryPointCount'')"
      unfolding steps by (simp add: thenDo_def)
    then show "run_outcome r = AssertFail ''entryPointCount'' \<and> kernelDescs (run_out r) = []"
      using assms(4) by (simp add: compileProgram_outcome compileProgram_out)
  qed
  have "\<forall>res. run_outcome r = Return res \<longrightarrow> 1 \<le> n"
  proof (intro allI impI, rule ccontr)
    fix res assume "run_outcome r = Return res" and "\<not> 1 \<le> n"
    then show False using zero by simp
  qed
  with zero show ?thesis by simp
qed

lemma run_no_entry_points_compiled:
  "snd (buildAndCompile debugBuild (testCompiler SLANG_OK []) 7 (testOptions RayTracing)
         (testInput SLANG_SOURCE_LANGUAGE_SLANG SLANG_PASS_THROUGH_NONE) (testRequest [] [])) = Inr ()"
  by (simp add: adapter_defs fixture_defs)

lemma run_raygen_compiled:
  "snd (buildAndCompile debugBuild
         (testCompiler SLANG_OK [(Some ''raygenMain'', SLANG_STAGE_RAY_GENERATION)]) 7
         (testOptions RayTracing)
         (testInput SLANG_SOURCE_LANGUAGE_SLANG SLANG_PASS_THROUGH_NONE) (testRequest [] [])) = Inr ()"
  by (simp add: adapter_defs fixture_defs)

lemma run_raygen_ok:
  "run_outcome (compileProgram debugBuild
         (testCompiler SLANG_OK [(Some ''raygenMain'', SLANG_STAGE_RAY_GENERATION)]) 7
         (testOptions RayTracing)
         (testInput SLANG_SOURCE_LANGUAGE_SLANG SLANG_PASS_THROUGH_NONE) (testRequest [] [])
         emptyOutput) = Return SLANG_OK"
  by (simp add: adapter_defs fixture_defs)

theorem reflected_entry_point_count_witness:
  "run_outcome (compileProgram debugBuild (testCompiler SLANG_OK []) 7 (testOptions RayTracing)
       (testInput SLANG_SOURCE_LANGUAGE_SLANG SLANG_PASS_THROUGH_NONE) (testRequest [] [])
       emptyOutput) = AssertFail ''entryPointCount'' \<and>
   1 \<le> length (ProgramLayout (testCompiler SLANG_OK [(Some ''raygenMain'', SLANG_STAGE_RAY_GENERATION)])
          (fst (buildAndCompile debugBuild
             (testCompiler SLANG_OK [(Some ''raygenMain'', SLANG_STAGE_RAY_GENERATION)]) 7
             (testOptions RayTracing)
             (testInput SLANG_SOURCE_LANGUAGE_SLANG SLANG_PASS_THROUGH_NONE) (testRequest [] []))
           @ [ProgramLayout_get]))"
proof -
  have on: "slangAssertOn debugBuild" by (simp add: debugBuild_def)
  have nm: "passThrough (testInput SLANG_SOURCE_LANGUAGE_SLANG SLANG_PASS_THROUGH_NONE) = SLANG_PASS_THROUGH_NONE"
    by (simp add: testInput_def)
  have none: "length (ProgramLayout (testCompiler SLANG_OK []) tr) = 0" for tr
    by (simp add: testCompiler_def)
  from reflected_entry_point_count [OF on nm run_no_entry_points_compiled refl refl, of emptyOutput] none
  have a: "run_outcome (compileProgram debugBuild (testCompiler SLANG_OK []) 7 (testOptions RayTracing)
       (testInput SLANG_SOURCE_LANGUAGE_SLANG SLANG_PASS_THROUGH_NONE) (testRequest [] [])
       emptyOutput) = AssertFail ''entryPointCount''"
    by simp
  from reflected_entry_point_count [OF on nm run_raygen_compiled refl refl, of emptyOutput] run_raygen_ok
  have b: "1 \<le> length (ProgramLayout (testCompiler SLANG_OK [(Some ''raygenMain'', SLANG_STAGE_RAY_GENERATION)])
          (fst (buildAndCompile debugBuild
             (testCompiler SLANG_OK [(Some ''raygenMain'', SLANG_STAGE_RAY_GENERATION)]) 7
             (testOptions RayTracing)
             (testInput SLANG_SOURCE_LANGUAGE_SLANG SLANG_PASS_THROUGH_NONE) (testRequest [] []))
           @ [ProgramLayout_get]))"
    by blast
  from a b show ?thesis by simp
qed

text \<open>
  Without \<open>SLANG_ASSERT\<close> the count can be zero after a successful compile: in normal
  mode, on a compiler whose reflection has no entry point, the count of zero goes
  unnoticed and the run returns \<open>SLANG_OK\<close> with an empty kernel list.
\<close>

theorem reflected_entry_point_count_counterexample:
  "passThrough (testInput SLANG_SOURCE_LANGUAGE_SLANG SLANG_PASS_THROUGH_NONE) = SLANG_PASS_THROUGH_NONE \<and>
   snd (buildAndCompile releaseBuild (testCompiler SLANG_OK []) 7 (testOptions RayTracing)
       (testInput SLANG_SOURCE_LANGUAGE_SLANG SLANG_PASS_THROUGH_NONE) (testRequest [] [])) = Inr () \<and>
   length (ProgramLayout (testCompiler SLANG_OK [])
       (fst (buildAndCompile releaseBuild (testCompiler SLANG_OK []) 7 (testOptions RayTracing)
          (testInput SLANG_SOURCE_LANGUAGE_SLANG SLANG_PASS_THROUGH_NONE) (testRequest [] []))
        @ [ProgramLayout_get])) = 0 \<and>
   run_outcome (compileProgram releaseBuild (testCompiler SLANG_OK []) 7 (testOptions RayTracing)
       (testInput SLANG_SOURCE_LANGUAGE_SLANG SLANG_PASS_THROUGH_NONE) (testRequest [] [])
       emptyOutput) = Return SLANG_OK \<and>
   kernelDescs (run_out (compileProgram releaseBuild (testCompiler SLANG_OK []) 7 (testOptions RayTracing)
       (testInput SLANG_SOURCE_LANGUAGE_SLANG SLANG_PASS_THROUGH_NONE) (testRequest [] [])
       emptyOutput)) = []"
  by (simp add: adapter_defs fixture_defs)

subsection \<open>The dialect's macros\<close>

lemma definedMacros_append: "definedMacros (xs @ ys) = definedMacros xs @ definedMacros ys"
  by (simp add: definedMacros_def)

lemma macroOf_afterSettings: "afterSettings y \<Longrightarrow> macroOf y = []"
  by (cases y) (simp_all add: afterSettings_def)

lemma definedMacros_afterSettings: "list_all afterSettings zs \<Longrightarrow> definedMacros zs = []"
  by (induction zs) (simp_all add: definedMacros_def macroOf_afterSettings)

lemma definedMacros_macroCalls: "definedMacros (macroCalls lang) = dialectMacros lang"
  by (cases lang) (simp_all add: definedMacros_def macroCalls_def)

lemma definedMacros_settings:
  "definedMacros (compileArgCalls req) = []"
  "definedMacros (targetCalls c input) = []"
  "definedMacros (passThroughCalls input) = []"
  by (simp_all add: definedMacros_def compileArgCalls_def targetCalls_def passThroughCalls_def)

lemma definedMacros_order:
  "definedMacros (requestBuildingOrder c input req) = dialectMacros (sourceLanguage input)"
  by (simp add: requestBuildingOrder_def definedMacros_append definedMacros_settings
        definedMacros_macroCalls)
     (simp add: definedMacros_def)

text \<open>
  C6, as the code has it. The macros a compile defines are a function of the source
  dialect alone: GLSL, HLSL, C, C++ and CUDA define one macro each (\<open>__GLSL__\<close>,
  \<open>__HLSL__\<close>, \<open>__C__\<close>, \<open>__CPP__\<close>, \<open>__CUDA__\<close>, with the value \<open>1\<close>); Slang defines two,
  \<open>__SLANG__\<close> and then \<open>__HLSL__\<close>; any other dialect defines none. A run defines
  exactly the macros of its dialect, or none when it stopped before the switch; a run
  that returns \<open>SLANG_OK\<close> defined exactly the macros of its dialect. With a dialect
  outside the six, a build with \<open>assert\<close> compiled in stops at the switch with the failed
  assertion "unexpected" (when the first argument list was accepted).
\<close>

theorem dialect_macro_selection:
  "dialectMacros SLANG_SOURCE_LANGUAGE_GLSL = [(''__GLSL__'', ''1'')] \<and>
   dialectMacros SLANG_SOURCE_LANGUAGE_SLANG = [(''__SLANG__'', ''1''), (''__HLSL__'', ''1'')] \<and>
   dialectMacros SLANG_SOURCE_LANGUAGE_HLSL = [(''__HLSL__'', ''1'')] \<and>
   dialectMacros SLANG_SOURCE_LANGUAGE_C = [(''__C__'', ''1'')] \<and>
   dialectMacros SLANG_SOURCE_LANGUAGE_CPP = [(''__CPP__'', ''1'')] \<and>
   dialectMacros SLANG_SOURCE_LANGUAGE_CUDA = [(''__CUDA__'', ''1'')] \<and>
   dialectMacros (SLANG_SOURCE_LANGUAGE_UNLISTED n) = [] \<and>
   (definedMacros (run_calls (compileProgram b c sess options input req out0))
        = dialectMacros (sourceLanguage input) \<or>
    definedMacros (run_calls (compileProgram b c sess options input req out0)) = []) \<and>
   (run_outcome (compileProgram b c sess options input req out0) = Return SLANG_OK \<longrightarrow>
      definedMacros (run_calls (compileProgram b c sess options input req out0))
        = dialectMacros (sourceLanguage input)) \<and>
   (cAssertOn b \<and> sourceLanguage input = SLANG_SOURCE_LANGUAGE_UNLISTED n \<and>
    snd (processCompileArgs c req [CreateCompileRequest sess]) = Inr () \<longrightarrow>
      run_outcome (compileProgram b c sess options input req out0) = AssertFail ''unexpected'')"
proof -
  let ?run = "compileProgram b c sess options input req out0"
  let ?order = "requestBuildingOrder c input req"
  let ?steps = "compileSteps b c sess options input req"
  from compileSteps_log [of b c sess options input req] obtain ys zs where
    log: "run_calls ?run = CreateCompileRequest sess # ys @ zs"
    and ys: "ys = ?order \<or> zs = [] \<and> (ys = compileArgCalls req \<or> ys = compileArgCalls req @ targetCalls c input)"
    and zs: "list_all afterSettings zs"
    and last: "snd ?steps = Inl (AssertFail ''unexpected'') \<or> (\<exists>r. snd ?steps = Inl (Return r)) \<or> ys = ?order"
    unfolding compileProgram_calls by blast
  have macros: "definedMacros (run_calls ?run) = definedMacros ys"
    using definedMacros_append [of "[CreateCompileRequest sess]" "ys @ zs"]
    by (simp add: log definedMacros_append definedMacros_afterSettings [OF zs])
       (simp add: definedMacros_def)
  have a: "definedMacros (run_calls ?run) = dialectMacros (sourceLanguage input) \<or>
      definedMacros (run_calls ?run) = []"
    using ys unfolding macros
    by (auto simp: definedMacros_order definedMacros_append definedMacros_settings)
  have b: "run_outcome ?run = Return SLANG_OK \<longrightarrow>
      definedMacros (run_calls ?run) = dialectMacros (sourceLanguage input)"
  proof
    assume ok: "run_outcome ?run = Return SLANG_OK"
    have "ys = ?order"
    proof (cases "snd ?steps")
      case (Inr ks)
      with last show ?thesis by simp
    next
      case (Inl e)
      with ok have "e = Return SLANG_OK" by (simp add: compileProgram_outcome)
      with Inl have "SLANG_FAILED SLANG_OK"
        by (intro compileSteps_Return_failed [of b c sess options input req]) simp
      then show ?thesis by (simp add: SLANG_FAILED_def SLANG_OK_def)
    qed
    then show "definedMacros (run_calls ?run) = dialectMacros (sourceLanguage input)"
      unfolding macros by (simp add: definedMacros_order)
  qed
  have c: "cAssertOn b \<and> sourceLanguage input = SLANG_SOURCE_LANGUAGE_UNLISTED n \<and>
      snd (processCompileArgs c req [CreateCompileRequest sess]) = Inr () \<longrightarrow>
        run_outcome ?run = AssertFail ''unexpected''"
  proof
    assume h: "cAssertOn b \<and> sourceLanguage input = SLANG_SOURCE_LANGUAGE_UNLISTED n \<and>
      snd (processCompileArgs c req [CreateCompileRequest sess]) = Inr ()"
    then have "snd (configureRequest b c input req [CreateCompileRequest sess]) = Inl (AssertFail ''unexpected'')"
      by (cases "processCompileArgs c req [CreateCompileRequest sess]")
         (simp add: configureRequest_def thenDo_def)
    then have "snd ?steps = Inl (AssertFail ''unexpected'')"
      by (simp add: compileSteps_split thenDo_Inl)
    then show "run_outcome ?run = AssertFail ''unexpected''"
      by (simp add: compileProgram_outcome)
  qed
  from a b c show ?thesis by simp
qed

lemma run_slang_ok:
  "run_outcome (compileProgram debugBuild
       (testCompiler SLANG_OK [(Some ''computeMain'', SLANG_STAGE_COMPUTE)]) 7
       (testOptions ShaderProgramType_Compute)
       (testInput SLANG_SOURCE_LANGUAGE_SLANG SLANG_PASS_THROUGH_NONE)
       (testRequest [\<lparr>name = Some ''computeMain'', slangStage = SLANG_STAGE_COMPUTE\<rparr>] [''T'', ''U''])
       emptyOutput) = Return SLANG_OK"
  by (simp add: adapter_defs fixture_defs)

theorem dialect_macro_selection_witness:
  "definedMacros (run_calls (compileProgram debugBuild
       (testCompiler SLANG_OK [(Some ''computeMain'', SLANG_STAGE_COMPUTE)]) 7
       (testOptions ShaderProgramType_Compute)
       (testInput SLANG_SOURCE_LANGUAGE_SLANG SLANG_PASS_THROUGH_NONE)
       (testRequest [\<lparr>name = Some ''computeMain'', slangStage = SLANG_STAGE_COMPUTE\<rparr>] [''T'', ''U''])
       emptyOutput))
     = [(''__SLANG__'', ''1''), (''__HLSL__'', ''1'')] \<and>
   run_outcome (compileProgram debugBuild (testCompiler SLANG_OK []) 7
       (testOptions ShaderProgramType_Compute)
       (testInput (SLANG_SOURCE_LANGUAGE_UNLISTED 0) SLANG_PASS_THROUGH_NONE)
       (testRequest [] [])
       emptyOutput) = AssertFail ''unexpected''"
proof
  show "definedMacros (run_calls (compileProgram debugBuild
       (testCompiler SLANG_OK [(Some ''computeMain'', SLANG_STAGE_COMPUTE)]) 7
       (testOptions ShaderProgramType_Compute)
       (testInput SLANG_SOURCE_LANGUAGE_SLANG SLANG_PASS_THROUGH_NONE)
       (testRequest [\<lparr>name = Some ''computeMain'', slangStage = SLANG_STAGE_COMPUTE\<rparr>] [''T'', ''U''])
       emptyOutput))
     = [(''__SLANG__'', ''1''), (''__HLSL__'', ''1'')]"
    using dialect_macro_selection [of 0 debugBuild
        "testCompiler SLANG_OK [(Some ''computeMain'', SLANG_STAGE_COMPUTE)]" 7
        "testOptions ShaderProgramType_Compute"
        "testInput SLANG_SOURCE_LANGUAGE_SLANG SLANG_PASS_THROUGH_NONE"
        "testRequest [\<lparr>name = Some ''computeMain'', slangStage = SLANG_STAGE_COMPUTE\<rparr>] [''T'', ''U'']"
        emptyOutput]
      run_slang_ok
    by (simp add: testInput_def)
next
  have "cAssertOn debugBuild"
    and "sourceLanguage (testInput (SLANG_SOURCE_LANGUAGE_UNLISTED 0) SLANG_PASS_THROUGH_NONE)
          = SLANG_SOURCE_LANGUAGE_UNLISTED 0"
    and "snd (processCompileArgs (testCompiler SLANG_OK []) (testRequest [] []) [CreateCompileRequest 7]) = Inr ()"
    by (simp_all add: debugBuild_def testInput_def testRequest_def processCompileArgs_def)
  then show "run_outcome (compileProgram debugBuild (testCompiler SLANG_OK []) 7
       (testOptions ShaderProgramType_Compute)
       (testInput (SLANG_SOURCE_LANGUAGE_UNLISTED 0) SLANG_PASS_THROUGH_NONE)
       (testRequest [] [])
       emptyOutput) = AssertFail ''unexpected''"
    using dialect_macro_selection [of 0 debugBuild "testCompiler SLANG_OK []" 7
        "testOptions ShaderProgramType_Compute"
        "testInput (SLANG_SOURCE_LANGUAGE_UNLISTED 0) SLANG_PASS_THROUGH_NONE"
        "testRequest [] []" emptyOutput]
    by blast
qed

text \<open>
  "Exactly one macro per compile" does not hold: a compile of the Slang dialect that
  succeeds defines two.
\<close>

theorem one_macro_per_compile_counterexample:
  "run_outcome (compileProgram debugBuild
       (testCompiler SLANG_OK [(Some ''computeMain'', SLANG_STAGE_COMPUTE)]) 7
       (testOptions ShaderProgramType_Compute)
       (testInput SLANG_SOURCE_LANGUAGE_SLANG SLANG_PASS_THROUGH_NONE)
       (testRequest [\<lparr>name = Some ''computeMain'', slangStage = SLANG_STAGE_COMPUTE\<rparr>] [])
       emptyOutput) = Return SLANG_OK \<and>
   length (definedMacros (run_calls (compileProgram debugBuild
       (testCompiler SLANG_OK [(Some ''computeMain'', SLANG_STAGE_COMPUTE)]) 7
       (testOptions ShaderProgramType_Compute)
       (testInput SLANG_SOURCE_LANGUAGE_SLANG SLANG_PASS_THROUGH_NONE)
       (testRequest [\<lparr>name = Some ''computeMain'', slangStage = SLANG_STAGE_COMPUTE\<rparr>] [])
       emptyOutput))) \<noteq> 1"
  by (simp add: adapter_defs fixture_defs definedMacros_def)

subsection \<open>The order of the settings\<close>

lemma requestBuildingOrder_prefixes:
  "prefix (compileArgCalls req) (requestBuildingOrder c input req)"
  "prefix (compileArgCalls req @ targetCalls c input) (requestBuildingOrder c input req)"
  by (simp_all add: requestBuildingOrder_def)

text \<open>
  C7. In every run of \<open>compileProgram\<close> the log is the creation of the request, then
  settings \<open>ys\<close>, then later calls \<open>zs\<close>, none of which is a setting. The settings are
  made in the fixed order: the extra arguments of the request (when there are any), the
  code generation target and the profile, the dialect's macros, the pass-through mode
  (only when one is requested), the arguments of the input. Either all of them were
  made, or the run stopped among them, having made the first few in that order, and made
  no later call. A run that returns \<open>SLANG_OK\<close> made all of them.
\<close>

theorem request_building_order:
  "requestBuildingOrder c input req =
     (if compileArgs req = [] then [] else [ProcessCommandLineArguments (compileArgs req)])
     @ [SetCodeGenTarget (target input), SetTargetProfile 0 (spFindProfile c (profile input))]
     @ map (\<lambda>(n, v). AddPreprocessorDefine n v) (dialectMacros (sourceLanguage input))
     @ (if passThrough input = SLANG_PASS_THROUGH_NONE then [] else [SetPassThrough (passThrough input)])
     @ [ProcessCommandLineArguments (args input)] \<and>
   (\<exists>ys zs.
      run_calls (compileProgram b c sess options input req out0) = CreateCompileRequest sess # ys @ zs \<and>
      (ys = requestBuildingOrder c input req \<or> zs = [] \<and> prefix ys (requestBuildingOrder c input req)) \<and>
      list_all afterSettings zs \<and>
      (run_outcome (compileProgram b c sess options input req out0) = Return SLANG_OK
         \<longrightarrow> ys = requestBuildingOrder c input req))"
proof
  show "requestBuildingOrder c input req =
     (if compileArgs req = [] then [] else [ProcessCommandLineArguments (compileArgs req)])
     @ [SetCodeGenTarget (target input), SetTargetProfile 0 (spFindProfile c (profile input))]
     @ map (\<lambda>(n, v). AddPreprocessorDefine n v) (dialectMacros (sourceLanguage input))
     @ (if passThrough input = SLANG_PASS_THROUGH_NONE then [] else [SetPassThrough (passThrough input)])
     @ [ProcessCommandLineArguments (args input)]"
    by (simp add: requestBuildingOrder_def compileArgCalls_def targetCalls_def macroCalls_def
          passThroughCalls_def)
next
  let ?order = "requestBuildingOrder c input req"
  let ?steps = "compileSteps b c sess options input req"
  from compileSteps_log [of b c sess options input req] obtain ys zs where
    log: "fst ?steps = CreateCompileRequest sess # ys @ zs"
    and ys: "ys = ?order \<or> zs = [] \<and> (ys = compileArgCalls req \<or> ys = compileArgCalls req @ targetCalls c input)"
    and zs: "list_all afterSettings zs"
    and last: "snd ?steps = Inl (AssertFail ''unexpected'') \<or> (\<exists>r. snd ?steps = Inl (Return r)) \<or> ys = ?order"
    by blast
  have a: "ys = ?order \<or> zs = [] \<and> prefix ys ?order"
    using ys requestBuildingOrder_prefixes [of req c input] by auto
  have b: "run_outcome (compileProgram b c sess options input req out0) = Return SLANG_OK \<longrightarrow> ys = ?order"
  proof
    assume ok: "run_outcome (compileProgram b c sess options input req out0) = Return SLANG_OK"
    show "ys = ?order"
    proof (cases "snd ?steps")
      case (Inr ks)
      with last show ?thesis by simp
    next
      case (Inl e)
      with ok have e: "e = Return SLANG_OK" by (simp add: compileProgram_outcome)
      with Inl have "SLANG_FAILED SLANG_OK" by (intro compileSteps_Return_failed [of b c sess options input req]) simp
      then show ?thesis by (simp add: SLANG_FAILED_def SLANG_OK_def)
    qed
  qed
  show "\<exists>ys zs.
      run_calls (compileProgram b c sess options input req out0) = CreateCompileRequest sess # ys @ zs \<and>
      (ys = ?order \<or> zs = [] \<and> prefix ys ?order) \<and>
      list_all afterSettings zs \<and>
      (run_outcome (compileProgram b c sess options input req out0) = Return SLANG_OK \<longrightarrow> ys = ?order)"
    using log a zs b unfolding compileProgram_calls by blast
qed

lemma run_cpp_passThrough_ok: "run_outcome (compileProgram debugBuild (testCompiler SLANG_OK []) 7
         (testOptions ShaderProgramType_Compute)
         (testInput SLANG_SOURCE_LANGUAGE_CPP (SLANG_PASS_THROUGH_TOOL 1))
         ((testRequest [\<lparr>name = Some ''computeMain'', slangStage = SLANG_STAGE_COMPUTE\<rparr>] [])
            \<lparr>compileArgs := [''-O3'']\<rparr>)
         emptyOutput) = Return SLANG_OK"
  by (simp add: adapter_defs fixture_defs)

theorem request_building_order_witness:
  "\<exists>zs. run_calls (compileProgram debugBuild (testCompiler SLANG_OK []) 7
         (testOptions ShaderProgramType_Compute)
         (testInput SLANG_SOURCE_LANGUAGE_CPP (SLANG_PASS_THROUGH_TOOL 1))
         ((testRequest [\<lparr>name = Some ''computeMain'', slangStage = SLANG_STAGE_COMPUTE\<rparr>] [])
            \<lparr>compileArgs := [''-O3'']\<rparr>)
         emptyOutput)
     = CreateCompileRequest 7 #
       [ProcessCommandLineArguments [''-O3''], SetCodeGenTarget 1, SetTargetProfile 0 6,
        AddPreprocessorDefine ''__CPP__'' ''1'', SetPassThrough (SLANG_PASS_THROUGH_TOOL 1),
        ProcessCommandLineArguments []] @ zs \<and> list_all afterSettings zs"
  using request_building_order [of "testCompiler SLANG_OK []"
      "testInput SLANG_SOURCE_LANGUAGE_CPP (SLANG_PASS_THROUGH_TOOL 1)"
      "(testRequest [\<lparr>name = Some ''computeMain'', slangStage = SLANG_STAGE_COMPUTE\<rparr>] [])
            \<lparr>compileArgs := [''-O3'']\<rparr>" debugBuild 7 "testOptions ShaderProgramType_Compute" emptyOutput]
    run_cpp_passThrough_ok
  by (auto simp: fixture_defs)

subsection \<open>Adding the entry points\<close>

text \<open>
  C8, as the code has it, for a build with \<open>SLANG_ASSERT\<close> compiled in. When default
  entry points are allowed, adding the \<open>N\<close> explicit entry points has one of two
  results. Either every entry point was added in the order of the list, each followed at
  once by its specialization arguments in the order of their list, and the compiler
  answered the addition at each position \<open>k\<close> with the index \<open>k\<close>, so that the returned
  indices are 0, 1, ..., \<open>N - 1\<close>. Or at the first position \<open>k\<close> whose returned index is
  not \<open>k\<close> the assertion on the index stops the run, right after that addition. When
  default entry points are disallowed and the list is not empty, the assertion at the
  head of the loop stops the run before any addition. A run of \<open>compileProgram\<close> that
  returns \<open>SLANG_OK\<close> is of the first kind.
\<close>

theorem entry_point_indices:
  assumes "slangAssertOn b"
    and "tu = translationUnitIndexOf c input tr"
    and "t2 = tr @ translationUnitCalls c input req tr"
    and "eps = entryPoints req" and "spArgs = entryPointSpecializationArgs req"
  shows "entryPointCalls tu spArgs 0 eps =
           concat (map (\<lambda>(i, ep). AddEntryPoint tu (name ep) (slangStage ep)
                      # map (\<lambda>(ii, a). SetTypeNameForEntryPointExistentialTypeParam (int i) ii a)
                          (enumerate 0 spArgs))
                   (enumerate 0 eps)) \<and>
         (\<not> dontAddDefaultEntryPoints options \<longrightarrow>
            (populateRequest b c options input req tr =
               (t2 @ entryPointCalls tu spArgs 0 eps, Inr (map int [0..<length eps])) \<and>
             (\<forall>k. k < length eps \<longrightarrow>
                spAddEntryPoint c (t2 @ entryPointCalls tu spArgs 0 (take k eps)
                   @ [AddEntryPoint tu (name (eps ! k)) (slangStage (eps ! k))]) = int k)) \<or>
            (\<exists>k. k < length eps \<and>
               populateRequest b c options input req tr =
                 (t2 @ entryPointCalls tu spArgs 0 (take k eps)
                     @ [AddEntryPoint tu (name (eps ! k)) (slangStage (eps ! k))],
                  Inl (AssertFail ''entryPointIndex == ee'')) \<and>
               spAddEntryPoint c (t2 @ entryPointCalls tu spArgs 0 (take k eps)
                     @ [AddEntryPoint tu (name (eps ! k)) (slangStage (eps ! k))]) \<noteq> int k)) \<and>
         (dontAddDefaultEntryPoints options \<and> eps \<noteq> [] \<longrightarrow>
            populateRequest b c options input req tr = (t2, Inl (AssertFail ''false''))) \<and>
         (tr = CreateCompileRequest sess # requestBuildingOrder c input req \<and>
          run_outcome (compileProgram b c sess options input req out0) = Return SLANG_OK \<longrightarrow>
            populateRequest b c options input req tr =
              (t2 @ entryPointCalls tu spArgs 0 eps, Inr (map int [0..<length eps])) \<and>
            (\<forall>k. k < length eps \<longrightarrow>
               spAddEntryPoint c (t2 @ entryPointCalls tu spArgs 0 (take k eps)
                  @ [AddEntryPoint tu (name (eps ! k)) (slangStage (eps ! k))]) = int k))"
proof -
  let ?good = "populateRequest b c options input req tr =
               (t2 @ entryPointCalls tu spArgs 0 eps, Inr (map int [0..<length eps])) \<and>
             (\<forall>k. k < length eps \<longrightarrow>
                spAddEntryPoint c (t2 @ entryPointCalls tu spArgs 0 (take k eps)
                   @ [AddEntryPoint tu (name (eps ! k)) (slangStage (eps ! k))]) = int k)"
  let ?drift = "\<exists>k. k < length eps \<and>
               populateRequest b c options input req tr =
                 (t2 @ entryPointCalls tu spArgs 0 (take k eps)
                     @ [AddEntryPoint tu (name (eps ! k)) (slangStage (eps ! k))],
                  Inl (AssertFail ''entryPointIndex == ee'')) \<and>
               spAddEntryPoint c (t2 @ entryPointCalls tu spArgs 0 (take k eps)
                     @ [AddEntryPoint tu (name (eps ! k)) (slangStage (eps ! k))]) \<noteq> int k"
  have spelled: "entryPointCalls tu spArgs 0 eps =
           concat (map (\<lambda>(i, ep). AddEntryPoint tu (name ep) (slangStage ep)
                      # map (\<lambda>(ii, a). SetTypeNameForEntryPointExistentialTypeParam (int i) ii a)
                          (enumerate 0 spArgs))
                   (enumerate 0 eps))"
    by (simp add: entryPointCalls_def entryPointBlock_def)
  have allowed: "\<not> dontAddDefaultEntryPoints options \<longrightarrow> ?good \<or> ?drift"
  proof
    assume d: "\<not> dontAddDefaultEntryPoints options"
    show "?good \<or> ?drift"
      using addEntryPoints_asserted [OF assms(1) d, of c tu spArgs 0 eps t2]
      unfolding populateRequest_eq assms(2-5) by simp
  qed
  have disallowed: "dontAddDefaultEntryPoints options \<and> eps \<noteq> [] \<longrightarrow>
      populateRequest b c options input req tr = (t2, Inl (AssertFail ''false''))"
    using addEntryPoints_disallowed [OF assms(1), of options eps c tu spArgs 0 t2]
    unfolding populateRequest_eq assms(2-5) by simp
  have ok: "tr = CreateCompileRequest sess # requestBuildingOrder c input req \<and>
      run_outcome (compileProgram b c sess options input req out0) = Return SLANG_OK \<longrightarrow> ?good"
  proof
    assume h: "tr = CreateCompileRequest sess # requestBuildingOrder c input req \<and>
        run_outcome (compileProgram b c sess options input req out0) = Return SLANG_OK"
    from compileProgram_ok [of b c sess options input req out0] h obtain ks where
      ks: "snd (compileSteps b c sess options input req) = Inr ks" by blast
    have cfg: "configureRequest b c input req [CreateCompileRequest sess] = (tr, Inr ())"
    proof -
      from ks have "\<exists>u. snd (configureRequest b c input req [CreateCompileRequest sess]) = Inr u"
        unfolding compileSteps_split
        by (cases "snd (configureRequest b c input req [CreateCompileRequest sess])")
           (simp_all add: thenDo_Inl)
      then show ?thesis
        using configureRequest_cases [of b c input req "[CreateCompileRequest sess]"] h by auto
    qed
    have populated: "\<exists>idxs. snd (populateRequest b c options input req tr) = Inr idxs"
    proof (cases "snd (populateRequest b c options input req tr)")
      case (Inl e)
      then have "snd (compileSteps b c sess options input req) = Inl e"
        unfolding compileSteps_split using cfg by (simp add: thenDo_Inr thenDo_Inl)
      with ks show ?thesis by simp
    qed blast
    show ?good
    proof (cases "eps = []")
      case True
      then have "populateRequest b c options input req tr = (t2, Inr [])"
        unfolding populateRequest_eq assms(2-5) by simp
      with True show ?thesis by (simp add: entryPointCalls_def)
    next
      case False
      with populated disallowed have "\<not> dontAddDefaultEntryPoints options" by auto
      with allowed populated show ?thesis by auto
    qed
  qed
  from spelled allowed disallowed ok show ?thesis by blast
qed

lemma run_graphics_explicit_ok:
  "run_outcome (compileProgram debugBuild
       (testCompiler SLANG_OK [(Some ''vertexMain'', SLANG_STAGE_VERTEX),
                               (Some ''fragmentMain'', SLANG_STAGE_FRAGMENT)]) 7
       (testOptions Graphics)
       (testInput SLANG_SOURCE_LANGUAGE_HLSL SLANG_PASS_THROUGH_NONE)
       (testRequest [\<lparr>name = Some ''vertexMain'', slangStage = SLANG_STAGE_VERTEX\<rparr>,
                     \<lparr>name = Some ''fragmentMain'', slangStage = SLANG_STAGE_FRAGMENT\<rparr>] [''T''])
       emptyOutput) = Return SLANG_OK"
  by (simp add: adapter_defs fixture_defs)

theorem entry_point_indices_witness:
  "snd (populateRequest debugBuild
       (testCompiler SLANG_OK [(Some ''vertexMain'', SLANG_STAGE_VERTEX),
                               (Some ''fragmentMain'', SLANG_STAGE_FRAGMENT)])
       (testOptions Graphics)
       (testInput SLANG_SOURCE_LANGUAGE_HLSL SLANG_PASS_THROUGH_NONE)
       (testRequest [\<lparr>name = Some ''vertexMain'', slangStage = SLANG_STAGE_VERTEX\<rparr>,
                     \<lparr>name = Some ''fragmentMain'', slangStage = SLANG_STAGE_FRAGMENT\<rparr>] [''T''])
       (CreateCompileRequest 7 #
          requestBuildingOrder
            (testCompiler SLANG_OK [(Some ''vertexMain'', SLANG_STAGE_VERTEX),
                                    (Some ''fragmentMain'', SLANG_STAGE_FRAGMENT)])
            (testInput SLANG_SOURCE_LANGUAGE_HLSL SLANG_PASS_THROUGH_NONE)
            (testRequest [\<lparr>name = Some ''vertexMain'', slangStage = SLANG_STAGE_VERTEX\<rparr>,
                          \<lparr>name = Some ''fragmentMain'', slangStage = SLANG_STAGE_FRAGMENT\<rparr>] [''T''])))
     = Inr [0, 1] \<and>
   snd (populateRequest debugBuild
       ((testCompiler SLANG_OK [])\<lparr>spAddEntryPoint := (\<lambda>tr. 5)\<rparr>)
       (testOptions Graphics)
       (testInput SLANG_SOURCE_LANGUAGE_HLSL SLANG_PASS_THROUGH_NONE)
       (testRequest [\<lparr>name = Some ''vertexMain'', slangStage = SLANG_STAGE_VERTEX\<rparr>,
                     \<lparr>name = Some ''fragmentMain'', slangStage = SLANG_STAGE_FRAGMENT\<rparr>] [''T''])
       [])
     = Inl (AssertFail ''entryPointIndex == ee'')"
proof
  let ?c = "testCompiler SLANG_OK [(Some ''vertexMain'', SLANG_STAGE_VERTEX),
                                   (Some ''fragmentMain'', SLANG_STAGE_FRAGMENT)]"
  let ?i = "testInput SLANG_SOURCE_LANGUAGE_HLSL SLANG_PASS_THROUGH_NONE"
  let ?req = "testRequest [\<lparr>name = Some ''vertexMain'', slangStage = SLANG_STAGE_VERTEX\<rparr>,
                           \<lparr>name = Some ''fragmentMain'', slangStage = SLANG_STAGE_FRAGMENT\<rparr>] [''T'']"
  have on: "slangAssertOn debugBuild" by (simp add: debugBuild_def)
  have len: "length (entryPoints ?req) = 2" by (simp add: testRequest_def)
  from entry_point_indices [OF on refl refl refl refl,
      of ?c ?i "CreateCompileRequest 7 # requestBuildingOrder ?c ?i ?req" ?req "testOptions Graphics"
         7 emptyOutput]
    run_graphics_explicit_ok
  have "snd (populateRequest debugBuild ?c (testOptions Graphics) ?i ?req
          (CreateCompileRequest 7 # requestBuildingOrder ?c ?i ?req))
      = Inr (map int [0..<length (entryPoints ?req)])"
    by simp
  then show "snd (populateRequest debugBuild ?c (testOptions Graphics) ?i ?req
          (CreateCompileRequest 7 # requestBuildingOrder ?c ?i ?req)) = Inr [0, 1]"
    unfolding len by (simp add: upt_rec)
next
  let ?d = "(testCompiler SLANG_OK [])\<lparr>spAddEntryPoint := (\<lambda>tr. 5)\<rparr>"
  let ?i = "testInput SLANG_SOURCE_LANGUAGE_HLSL SLANG_PASS_THROUGH_NONE"
  let ?req = "testRequest [\<lparr>name = Some ''vertexMain'', slangStage = SLANG_STAGE_VERTEX\<rparr>,
                           \<lparr>name = Some ''fragmentMain'', slangStage = SLANG_STAGE_FRAGMENT\<rparr>] [''T'']"
  have on: "slangAssertOn debugBuild" by (simp add: debugBuild_def)
  have dflt: "\<not> dontAddDefaultEntryPoints (testOptions Graphics)" by (simp add: testOptions_def)
  have drift: "spAddEntryPoint ?d t \<noteq> 0" for t by simp
  have len: "0 < length (entryPoints ?req)" by (simp add: testRequest_def)
  from entry_point_indices [OF on refl refl refl refl, of ?d ?i "[]" ?req "testOptions Graphics" 7 emptyOutput]
    dflt
  have "(\<forall>k. k < length (entryPoints ?req) \<longrightarrow>
            spAddEntryPoint ?d ([] @ translationUnitCalls ?d ?i ?req []
               @ entryPointCalls (translationUnitIndexOf ?d ?i []) (entryPointSpecializationArgs ?req) 0
                   (take k (entryPoints ?req))
               @ [AddEntryPoint (translationUnitIndexOf ?d ?i []) (name (entryPoints ?req ! k))
                    (slangStage (entryPoints ?req ! k))]) = int k) \<or>
        snd (populateRequest debugBuild ?d (testOptions Graphics) ?i ?req [])
          = Inl (AssertFail ''entryPointIndex == ee'')"
    by auto
  then show "snd (populateRequest debugBuild ?d (testOptions Graphics) ?i ?req [])
      = Inl (AssertFail ''entryPointIndex == ee'')"
  proof
    assume "\<forall>k. k < length (entryPoints ?req) \<longrightarrow>
            spAddEntryPoint ?d ([] @ translationUnitCalls ?d ?i ?req []
               @ entryPointCalls (translationUnitIndexOf ?d ?i []) (entryPointSpecializationArgs ?req) 0
                   (take k (entryPoints ?req))
               @ [AddEntryPoint (translationUnitIndexOf ?d ?i []) (name (entryPoints ?req ! k))
                    (slangStage (entryPoints ?req ! k))]) = int k"
    with len have "spAddEntryPoint ?d ([] @ translationUnitCalls ?d ?i ?req []
               @ entryPointCalls (translationUnitIndexOf ?d ?i []) (entryPointSpecializationArgs ?req) 0
                   (take 0 (entryPoints ?req))
               @ [AddEntryPoint (translationUnitIndexOf ?d ?i []) (name (entryPoints ?req ! 0))
                    (slangStage (entryPoints ?req ! 0))]) = int 0"
      by blast
    with drift show ?thesis by simp
  qed
qed

text \<open>
  Without the two conditions the indices need not be the positions. In a build without
  \<open>SLANG_ASSERT\<close>, on a compiler that answers every addition with 5, the run returns
  \<open>SLANG_OK\<close> having been given the indices 5 and 5 for the positions 0 and 1, and no
  assertion was made. In a build with \<open>SLANG_ASSERT\<close> and default entry points
  disallowed, the run stops before the first entry point is added.
\<close>

theorem entry_point_indices_counterexample:
  "run_outcome (compileProgram releaseBuild
       ((testCompiler SLANG_OK [(Some ''vertexMain'', SLANG_STAGE_VERTEX),
                                (Some ''fragmentMain'', SLANG_STAGE_FRAGMENT)])
          \<lparr>spAddEntryPoint := (\<lambda>tr. 5)\<rparr>) 7
       (testOptions Graphics)
       (testInput SLANG_SOURCE_LANGUAGE_HLSL SLANG_PASS_THROUGH_NONE)
       (testRequest [\<lparr>name = Some ''vertexMain'', slangStage = SLANG_STAGE_VERTEX\<rparr>,
                     \<lparr>name = Some ''fragmentMain'', slangStage = SLANG_STAGE_FRAGMENT\<rparr>] [])
       emptyOutput) = Return SLANG_OK \<and>
   snd (populateRequest releaseBuild
       ((testCompiler SLANG_OK [(Some ''vertexMain'', SLANG_STAGE_VERTEX),
                                (Some ''fragmentMain'', SLANG_STAGE_FRAGMENT)])
          \<lparr>spAddEntryPoint := (\<lambda>tr. 5)\<rparr>)
       (testOptions Graphics)
       (testInput SLANG_SOURCE_LANGUAGE_HLSL SLANG_PASS_THROUGH_NONE)
       (testRequest [\<lparr>name = Some ''vertexMain'', slangStage = SLANG_STAGE_VERTEX\<rparr>,
                     \<lparr>name = Some ''fragmentMain'', slangStage = SLANG_STAGE_FRAGMENT\<rparr>] [])
       [CreateCompileRequest 7]) = Inr [5, 5] \<and>
   [5, 5] \<noteq> map int [0..<2] \<and>
   populateRequest debugBuild (testCompiler SLANG_OK [])
       ((testOptions Graphics)\<lparr>dontAddDefaultEntryPoints := True\<rparr>)
       (testInput SLANG_SOURCE_LANGUAGE_HLSL SLANG_PASS_THROUGH_NONE)
       (testRequest [\<lparr>name = Some ''vertexMain'', slangStage = SLANG_STAGE_VERTEX\<rparr>,
                     \<lparr>name = Some ''fragmentMain'', slangStage = SLANG_STAGE_FRAGMENT\<rparr>] [])
       []
     = ([AddTranslationUnit SLANG_SOURCE_LANGUAGE_HLSL None,
         AddTranslationUnitSourceString 0 ''test.slang'' ''void computeMain() {}''],
        Inl (AssertFail ''false''))"
  by (simp add: adapter_defs fixture_defs upt_rec)

subsection \<open>The specialization arguments of the entry points\<close>




subsection \<open>The output on failure\<close>

lemma compileWithLayout_unreadable:
  "files h (sourcePath options) = None \<Longrightarrow>
     compileWithLayout h b c sess options input output0 =
       \<lparr>run_outcome = Return SLANG_FAIL, run_out = output0,
        run_calls = fst (readSource h (sourcePath options) [])\<rparr>"
  by (simp add: compileWithLayout_def readSource_def)

text \<open>
  C9, as the code has it. A run of \<open>compileProgram\<close> that does not return \<open>SLANG_OK\<close>
  leaves the output with no kernel and the pipeline type of a reset output, but holding
  the request just created and the session: it is the reset output with these two
  handles set. A run that returns \<open>SLANG_OK\<close> leaves the output with the pipeline type
  of the input, the packaged kernels and the same two handles. A returned code other
  than \<open>SLANG_OK\<close> is a failure code. When the source file cannot be opened,
  \<open>compileWithLayout\<close> returns \<open>SLANG_FAIL\<close> having made no call but the error message,
  so no request was created, and leaves its output exactly as the caller passed it.
\<close>

theorem failure_output:
  "(run_outcome (compileProgram b c sess options input req out0) \<noteq> Return SLANG_OK \<longrightarrow>
      run_out (compileProgram b c sess options input req out0)
        = (Output_reset out0)\<lparr>request := Some (spCreateCompileRequest c sess), session := Some sess\<rparr> \<and>
      kernelDescs (run_out (compileProgram b c sess options input req out0)) = [] \<and>
      desc_pipelineType (run_out (compileProgram b c sess options input req out0)) = PipelineType_Unknown) \<and>
   (run_outcome (compileProgram b c sess options input req out0) = Return SLANG_OK \<longrightarrow>
      (\<exists>ks. snd (compileSteps b c sess options input req) = Inr ks \<and>
         run_out (compileProgram b c sess options input req out0)
           = \<lparr>desc_pipelineType = pipelineType input, kernelDescs = ks,
              request = Some (spCreateCompileRequest c sess), session = Some sess\<rparr>)) \<and>
   (\<forall>res. run_outcome (compileProgram b c sess options input req out0) = Return res \<longrightarrow>
      res = SLANG_OK \<or> SLANG_FAILED res) \<and>
   (files h (sourcePath options) = None \<longrightarrow>
      run_outcome (compileWithLayout h b c sess options input output0) = Return SLANG_FAIL \<and>
      run_out (compileWithLayout h b c sess options input output0) = output0 \<and>
      (\<exists>msg. run_calls (compileWithLayout h b c sess options input output0) = [Stderr msg]))"
proof (intro conjI impI allI)
  let ?run = "compileProgram b c sess options input req out0"
  let ?steps = "compileSteps b c sess options input req"
  {
    assume bad: "run_outcome ?run \<noteq> Return SLANG_OK"
    then obtain e where e: "snd ?steps = Inl e"
      by (cases "snd ?steps") (simp_all add: compileProgram_outcome)
    then show "run_out ?run
        = (Output_reset out0)\<lparr>request := Some (spCreateCompileRequest c sess), session := Some sess\<rparr>"
      and "kernelDescs (run_out ?run) = []"
      and "desc_pipelineType (run_out ?run) = PipelineType_Unknown"
      by (simp_all add: compileProgram_out Output_reset_def)
  }
  {
    assume "run_outcome ?run = Return SLANG_OK"
    from compileProgram_ok [OF this] obtain ks where ks: "snd ?steps = Inr ks" by blast
    then show "\<exists>ks. snd ?steps = Inr ks \<and>
         run_out ?run = \<lparr>desc_pipelineType = pipelineType input, kernelDescs = ks,
              request = Some (spCreateCompileRequest c sess), session = Some sess\<rparr>"
      by (simp add: compileProgram_out)
  }
  {
    fix res assume r: "run_outcome ?run = Return res"
    show "res = SLANG_OK \<or> SLANG_FAILED res"
    proof (cases "snd ?steps")
      case (Inr ks)
      with r show ?thesis by (simp add: compileProgram_outcome)
    next
      case (Inl e)
      with r have "snd ?steps = Inl (Return res)" by (simp add: compileProgram_outcome)
      then show ?thesis by (simp add: compileSteps_Return_failed)
    qed
  }
  {
    assume "files h (sourcePath options) = None"
    then show "run_outcome (compileWithLayout h b c sess options input output0) = Return SLANG_FAIL"
      and "run_out (compileWithLayout h b c sess options input output0) = output0"
      and "\<exists>msg. run_calls (compileWithLayout h b c sess options input output0) = [Stderr msg]"
      by (simp_all add: compileWithLayout_unreadable readSource_def)
  }
qed

lemma run_compile_error:
  "run_outcome (compileProgram debugBuild (testCompiler SLANG_FAIL []) 7
       (testOptions ShaderProgramType_Compute)
       (testInput SLANG_SOURCE_LANGUAGE_SLANG SLANG_PASS_THROUGH_NONE)
       (testRequest [\<lparr>name = Some ''computeMain'', slangStage = SLANG_STAGE_COMPUTE\<rparr>] [])
       emptyOutput) = Return SLANG_FAIL"
  by (simp add: adapter_defs fixture_defs)

theorem failure_output_witness:
  "run_out (compileProgram debugBuild (testCompiler SLANG_FAIL []) 7
       (testOptions ShaderProgramType_Compute)
       (testInput SLANG_SOURCE_LANGUAGE_SLANG SLANG_PASS_THROUGH_NONE)
       (testRequest [\<lparr>name = Some ''computeMain'', slangStage = SLANG_STAGE_COMPUTE\<rparr>] [])
       emptyOutput)
     = \<lparr>desc_pipelineType = PipelineType_Unknown, kernelDescs = [], request = Some 8, session = Some 7\<rparr> \<and>
   run_out (compileWithLayout testHost debugBuild (testCompiler SLANG_OK []) 7
       ((testOptions ShaderProgramType_Compute)\<lparr>sourcePath := ''missing.slang''\<rparr>)
       (testInput SLANG_SOURCE_LANGUAGE_SLANG SLANG_PASS_THROUGH_NONE)
       \<lparr>oal_output = emptyOutput,
        layout = \<lparr>numRenderTargets = 0, layout_globalSpecializationArgs = [],
                  layout_entryPointSpecializationArgs = []\<rparr>,
        oal_sourcePath = []\<rparr>)
     = \<lparr>oal_output = emptyOutput,
        layout = \<lparr>numRenderTargets = 0, layout_globalSpecializationArgs = [],
                  layout_entryPointSpecializationArgs = []\<rparr>,
        oal_sourcePath = []\<rparr>"
proof -
  have fail: "Return SLANG_FAIL \<noteq> Return SLANG_OK"
    by (simp add: SLANG_FAIL_def SLANG_OK_def)
  have missing: "files testHost (sourcePath ((testOptions ShaderProgramType_Compute)\<lparr>sourcePath := ''missing.slang''\<rparr>)) = None"
    by (simp add: testHost_def)
  note a = failure_output [of debugBuild "testCompiler SLANG_FAIL []" 7
      "testOptions ShaderProgramType_Compute"
      "testInput SLANG_SOURCE_LANGUAGE_SLANG SLANG_PASS_THROUGH_NONE"
      "testRequest [\<lparr>name = Some ''computeMain'', slangStage = SLANG_STAGE_COMPUTE\<rparr>] []"
      emptyOutput]
  note b = failure_output [of debugBuild "testCompiler SLANG_OK []" 7
      "(testOptions ShaderProgramType_Compute)\<lparr>sourcePath := ''missing.slang''\<rparr>"
      "testInput SLANG_SOURCE_LANGUAGE_SLANG SLANG_PASS_THROUGH_NONE"
      "testRequest [] []" emptyOutput testHost]
  from a run_compile_error fail have
    "run_out (compileProgram debugBuild (testCompiler SLANG_FAIL []) 7
       (testOptions ShaderProgramType_Compute)
       (testInput SLANG_SOURCE_LANGUAGE_SLANG SLANG_PASS_THROUGH_NONE)
       (testRequest [\<lparr>name = Some ''computeMain'', slangStage = SLANG_STAGE_COMPUTE\<rparr>] [])
       emptyOutput)
     = (Output_reset emptyOutput)\<lparr>request := Some (spCreateCompileRequest (testCompiler SLANG_FAIL []) 7),
                                  session := Some 7\<rparr>"
    by simp
  moreover from b missing have
    "run_out (compileWithLayout testHost debugBuild (testCompiler SLANG_OK []) 7
       ((testOptions ShaderProgramType_Compute)\<lparr>sourcePath := ''missing.slang''\<rparr>)
       (testInput SLANG_SOURCE_LANGUAGE_SLANG SLANG_PASS_THROUGH_NONE) out) = out" for out
    by blast
  ultimately show ?thesis
    by (simp add: Output_reset_def testCompiler_def)
qed

text \<open>
  "Fully populated or left in its reset state" does not hold where the compiler reports
  an error: the output is then neither populated (it has no kernel) nor in its reset
  state (it holds the new request and the session).
\<close>

theorem failure_output_counterexample:
  "run_outcome (compileProgram debugBuild (testCompiler SLANG_FAIL []) 7
       (testOptions ShaderProgramType_Compute)
       (testInput SLANG_SOURCE_LANGUAGE_SLANG SLANG_PASS_THROUGH_NONE)
       (testRequest [\<lparr>name = Some ''computeMain'', slangStage = SLANG_STAGE_COMPUTE\<rparr>] [])
       emptyOutput) = Return SLANG_FAIL \<and>
   SLANG_FAILED SLANG_FAIL \<and>
   kernelDescs (run_out (compileProgram debugBuild (testCompiler SLANG_FAIL []) 7
       (testOptions ShaderProgramType_Compute)
       (testInput SLANG_SOURCE_LANGUAGE_SLANG SLANG_PASS_THROUGH_NONE)
       (testRequest [\<lparr>name = Some ''computeMain'', slangStage = SLANG_STAGE_COMPUTE\<rparr>] [])
       emptyOutput)) = [] \<and>
   request (run_out (compileProgram debugBuild (testCompiler SLANG_FAIL []) 7
       (testOptions ShaderProgramType_Compute)
       (testInput SLANG_SOURCE_LANGUAGE_SLANG SLANG_PASS_THROUGH_NONE)
       (testRequest [\<lparr>name = Some ''computeMain'', slangStage = SLANG_STAGE_COMPUTE\<rparr>] [])
       emptyOutput)) = Some 8 \<and>
   request (Output_reset emptyOutput) = None \<and>
   run_out (compileProgram debugBuild (testCompiler SLANG_FAIL []) 7
       (testOptions ShaderProgramType_Compute)
       (testInput SLANG_SOURCE_LANGUAGE_SLANG SLANG_PASS_THROUGH_NONE)
       (testRequest [\<lparr>name = Some ''computeMain'', slangStage = SLANG_STAGE_COMPUTE\<rparr>] [])
       emptyOutput) \<noteq> Output_reset emptyOutput"
  by (simp add: adapter_defs fixture_defs)

subsection \<open>The default entry points\<close>

lemma addedEntryPoints_append:
  "addedEntryPoints (xs @ ys) = addedEntryPoints xs @ addedEntryPoints ys"
  by (simp add: addedEntryPoints_def)

lemma entryPointOf_afterPopulating: "afterPopulating y \<Longrightarrow> entryPointOf y = []"
  by (cases y) (simp_all add: afterPopulating_def)

lemma addedEntryPoints_afterPopulating: "list_all afterPopulating zs \<Longrightarrow> addedEntryPoints zs = []"
  by (induction zs) (simp_all add: addedEntryPoints_def entryPointOf_afterPopulating)

lemma addedEntryPoints_macroCalls: "addedEntryPoints (macroCalls lang) = []"
  by (cases lang) (simp_all add: addedEntryPoints_def macroCalls_def)

lemma addedEntryPoints_order: "addedEntryPoints (requestBuildingOrder c input req) = []"
  by (simp add: requestBuildingOrder_def addedEntryPoints_append addedEntryPoints_macroCalls)
     (simp add: addedEntryPoints_def compileArgCalls_def targetCalls_def passThroughCalls_def)

lemma addedEntryPoints_global: "addedEntryPoints (setGlobalSpecializationArgs ii as) = []"
  by (induction as arbitrary: ii) (simp_all add: addedEntryPoints_def)

lemma addedEntryPoints_translationUnitCalls:
  "addedEntryPoints (translationUnitCalls c input req tr) = []"
  using addedEntryPoints_global [of 0 "globalSpecializationArgs req"]
  by (simp add: translationUnitCalls_def addedEntryPoints_def)

lemma addedEntryPoints_args:
  "addedEntryPoints (setEntryPointSpecializationArgs idx ii as) = []"
  by (induction as arbitrary: ii) (simp_all add: addedEntryPoints_def)

lemma addedEntryPoints_block:
  "addedEntryPoints (entryPointBlock tu spArgs idx ep) = [(name ep, slangStage ep)]"
  using addedEntryPoints_args [of idx 0 spArgs]
  by (simp add: entryPointBlock_eq addedEntryPoints_def)

lemma addedEntryPoints_blocks:
  "length idxs = length eps \<Longrightarrow>
     addedEntryPoints (concat (map (\<lambda>(idx, ep). entryPointBlock tu spArgs idx ep) (zip idxs eps)))
       = map (\<lambda>ep. (name ep, slangStage ep)) eps"
proof (induction eps arbitrary: idxs)
  case Nil
  then show ?case by (simp add: addedEntryPoints_def)
next
  case (Cons ep rest)
  then obtain i more where idxs: "idxs = i # more" and len: "length more = length rest"
    by (cases idxs) simp_all
  from Cons.IH [OF len] show ?case
    unfolding idxs by (simp add: addedEntryPoints_append addedEntryPoints_block)
qed

text \<open>The log of a run whose steps all succeed, up to the entry points.\<close>

lemma compileSteps_ok_log:
  assumes "compileSteps b c sess options input req = (tr', Inr ks)"
  shows "\<exists>idxs zs. length idxs = length (entryPoints req) \<and>
      tr' = (CreateCompileRequest sess # requestBuildingOrder c input req)
            @ translationUnitCalls c input req (CreateCompileRequest sess # requestBuildingOrder c input req)
            @ concat (map (\<lambda>(idx, ep).
                entryPointBlock
                  (translationUnitIndexOf c input (CreateCompileRequest sess # requestBuildingOrder c input req))
                  (entryPointSpecializationArgs req) idx ep)
                (zip idxs (entryPoints req)))
            @ zs \<and>
      list_all afterPopulating zs"
proof -
  let ?t0 = "CreateCompileRequest sess # requestBuildingOrder c input req"
  let ?cfg = "configureRequest b c input req [CreateCompileRequest sess]"
  from thenDo_result [OF assms [unfolded compileSteps_split]] obtain u where
    u: "snd ?cfg = Inr u"
    and rest: "thenDo (thenDo (populateRequest b c options input req (fst ?cfg)) (\<lambda>_ tr. runCompile c tr))
                 (\<lambda>_ tr. extractKernels b c input req tr) = (tr', Inr ks)"
    by blast
  have cfg: "fst ?cfg = ?t0"
    using configureRequest_cases [of b c input req "[CreateCompileRequest sess]"] u by auto
  let ?inner = "thenDo (populateRequest b c options input req ?t0) (\<lambda>_ tr. runCompile c tr)"
  from thenDo_result [OF rest [unfolded cfg]] obtain x where
    x: "snd ?inner = Inr x" and ex: "extractKernels b c input req (fst ?inner) = (tr', Inr ks)"
    by blast
  from x have "?inner = (fst ?inner, Inr x)" by (simp add: prod_eq_iff)
  from thenDo_result [OF this] obtain idxs where
    idxs: "snd (populateRequest b c options input req ?t0) = Inr idxs"
    and rc: "runCompile c (fst (populateRequest b c options input req ?t0)) = (fst ?inner, Inr x)"
    by blast
  let ?t1 = "fst (populateRequest b c options input req ?t0)"
  from idxs have "populateRequest b c options input req ?t0 = (?t1, Inr idxs)"
    by (simp add: prod_eq_iff)
  from addEntryPoints_Inr [OF this [unfolded populateRequest_eq]]
  have len: "length idxs = length (entryPoints req)"
    and t1: "?t1 = (?t0 @ translationUnitCalls c input req ?t0)
               @ concat (map (\<lambda>(idx, ep).
                   entryPointBlock (translationUnitIndexOf c input ?t0) (entryPointSpecializationArgs req) idx ep)
                   (zip idxs (entryPoints req)))"
    by (simp_all add: populateRequest_eq)
  from runCompile_grows [of ?t1 c] rc obtain z1 where
    z1: "fst ?inner = ?t1 @ z1" and p1: "list_all (\<lambda>y. phase_of y = Compiling) z1"
    unfolding grows_def by auto
  from extractKernels_grows [of "fst ?inner" b c input req] ex obtain z2 where
    z2: "tr' = fst ?inner @ z2" and p2: "list_all (\<lambda>y. phase_of y = Reflecting \<or> phase_of y = Packaging) z2"
    unfolding grows_def by auto
  have "list_all afterPopulating (z1 @ z2)"
    using p1 p2 by (auto simp: list_all_iff afterPopulating_def)
  moreover have "tr' = ?t0 @ translationUnitCalls c input req ?t0
            @ concat (map (\<lambda>(idx, ep).
                entryPointBlock (translationUnitIndexOf c input ?t0) (entryPointSpecializationArgs req) idx ep)
                (zip idxs (entryPoints req)))
            @ (z1 @ z2)"
    using z2 z1 t1 by simp
  ultimately show ?thesis using len by blast
qed

text \<open>A run that returns \<open>SLANG_OK\<close> has added exactly the entry points of the request.\<close>

lemma compileProgram_addedEntryPoints:
  assumes "run_outcome (compileProgram b c sess options input req out0) = Return SLANG_OK"
  shows "addedEntryPoints (run_calls (compileProgram b c sess options input req out0))
      = map (\<lambda>ep. (name ep, slangStage ep)) (entryPoints req)"
proof -
  from compileProgram_ok [OF assms] obtain ks where
    "snd (compileSteps b c sess options input req) = Inr ks" by blast
  then have "compileSteps b c sess options input req
      = (fst (compileSteps b c sess options input req), Inr ks)"
    by (simp add: prod_eq_iff)
  from compileSteps_ok_log [OF this] obtain idxs zs where
    len: "length idxs = length (entryPoints req)"
    and log: "fst (compileSteps b c sess options input req)
       = (CreateCompileRequest sess # requestBuildingOrder c input req)
            @ translationUnitCalls c input req (CreateCompileRequest sess # requestBuildingOrder c input req)
            @ concat (map (\<lambda>(idx, ep).
                entryPointBlock
                  (translationUnitIndexOf c input (CreateCompileRequest sess # requestBuildingOrder c input req))
                  (entryPointSpecializationArgs req) idx ep)
                (zip idxs (entryPoints req)))
            @ zs"
    and zs: "list_all afterPopulating zs"
    by blast
  have first: "addedEntryPoints (CreateCompileRequest sess # requestBuildingOrder c input req) = []"
    using addedEntryPoints_order [of c input req]
      addedEntryPoints_append [of "[CreateCompileRequest sess]" "requestBuildingOrder c input req"]
    by (simp add: addedEntryPoints_def)
  show ?thesis
    unfolding compileProgram_calls log
    by (simp only: addedEntryPoints_append first addedEntryPoints_translationUnitCalls
          addedEntryPoints_blocks [OF len] addedEntryPoints_afterPopulating [OF zs] append_Nil append_Nil2)
qed

lemma addPrelude_calls:
  "list_all (\<lambda>y. phase_of y = Loading) (fst (addPrelude c input sourceText [])) \<and>
   addedEntryPoints (fst (addPrelude c input sourceText [])) = []"
  by (simp add: addPrelude_def addedEntryPoints_def)

lemma compileWithLayout_readable:
  assumes "files h (sourcePath options) = Some bytes"
    and "sourceText = snd (addPrelude c input (bytes @ [CHR 0x00]) [])"
    and "lay = parseLayout h options input sourceText (layout output0)"
    and "r = compileProgram b c sess options input (buildCompileRequest options sourceText lay)
               (oal_output output0)"
  shows "compileWithLayout h b c sess options input output0 =
     \<lparr>run_outcome = run_outcome r,
      run_out = output0\<lparr>oal_output := run_out r, layout := lay, oal_sourcePath := sourcePath options\<rparr>,
      run_calls = fst (addPrelude c input (bytes @ [CHR 0x00]) []) @ run_calls r\<rparr>"
  using assms
  by (cases "addPrelude c input (bytes @ [CHR 0x00]) []")
     (simp add: compileWithLayout_def readSource_def Let_def)

text \<open>
  C1. When the source file can be read and the default entry points are enabled,
  \<open>compileWithLayout\<close> is a run of \<open>compileProgram\<close> on a request \<open>req\<close> that it builds
  from the source text and the parsed layout, after at most the query for the prelude:
  the outcome is that run's, the log is that run's log after the prelude query, the
  output is that run's output. The entry points of \<open>req\<close> are, for a compute program,
  the one entry point \<open>computeMain\<close> of stage compute; for a graphics program (with or
  without compute), \<open>vertexMain\<close> of stage vertex and then \<open>fragmentMain\<close> of stage
  fragment; for a ray tracing program, none. The layout given to the layout parser has
  the render-target count 0 for a ray tracing program. A run that returns \<open>SLANG_OK\<close>
  has added to the compiler's request exactly the entry points of \<open>req\<close>, in order.
\<close>

theorem default_entry_points:
  assumes "\<not> dontAddDefaultEntryPoints options"
    and "files h (sourcePath options) = Some bytes"
  shows "\<exists>sourceText lay req pre.
      req = buildCompileRequest options sourceText lay \<and>
      lay = layout_updateForTarget h (target input)
              (layout_parse h 0x34234 (c_str sourceText)
                 ((layout output0)\<lparr>numRenderTargets := defaultNumRenderTargets (shaderType options)\<rparr>)) \<and>
      (shaderType options = RayTracing \<longrightarrow> defaultNumRenderTargets (shaderType options) = 0) \<and>
      run_outcome (compileWithLayout h b c sess options input output0)
        = run_outcome (compileProgram b c sess options input req (oal_output output0)) \<and>
      run_calls (compileWithLayout h b c sess options input output0)
        = pre @ run_calls (compileProgram b c sess options input req (oal_output output0)) \<and>
      list_all (\<lambda>y. phase_of y = Loading) pre \<and>
      oal_output (run_out (compileWithLayout h b c sess options input output0))
        = run_out (compileProgram b c sess options input req (oal_output output0)) \<and>
      layout (run_out (compileWithLayout h b c sess options input output0)) = lay \<and>
      (shaderType options = ShaderProgramType_Compute \<longrightarrow>
         entryPoints req = [\<lparr>name = Some ''computeMain'', slangStage = SLANG_STAGE_COMPUTE\<rparr>]) \<and>
      (shaderType options = Graphics \<longrightarrow>
         entryPoints req = [\<lparr>name = Some ''vertexMain'', slangStage = SLANG_STAGE_VERTEX\<rparr>,
                            \<lparr>name = Some ''fragmentMain'', slangStage = SLANG_STAGE_FRAGMENT\<rparr>]) \<and>
      (shaderType options = GraphicsCompute \<longrightarrow>
         entryPoints req = [\<lparr>name = Some ''vertexMain'', slangStage = SLANG_STAGE_VERTEX\<rparr>,
                            \<lparr>name = Some ''fragmentMain'', slangStage = SLANG_STAGE_FRAGMENT\<rparr>]) \<and>
      (shaderType options = RayTracing \<longrightarrow> entryPoints req = []) \<and>
      (run_outcome (compileWithLayout h b c sess options input output0) = Return SLANG_OK \<longrightarrow>
         addedEntryPoints (run_calls (compileWithLayout h b c sess options input output0))
           = map (\<lambda>ep. (name ep, slangStage ep)) (entryPoints req))"
proof -
  define sourceText where "sourceText = snd (addPrelude c input (bytes @ [CHR 0x00]) [])"
  define lay where "lay = parseLayout h options input sourceText (layout output0)"
  define req where "req = buildCompileRequest options sourceText lay"
  define pre where "pre = fst (addPrelude c input (bytes @ [CHR 0x00]) [])"
  let ?r = "compileProgram b c sess options input req (oal_output output0)"
  let ?w = "compileWithLayout h b c sess options input output0"
  have w: "?w = \<lparr>run_outcome = run_outcome ?r,
      run_out = output0\<lparr>oal_output := run_out ?r, layout := lay, oal_sourcePath := sourcePath options\<rparr>,
      run_calls = pre @ run_calls ?r\<rparr>"
    unfolding pre_def req_def
    by (rule compileWithLayout_readable [OF assms(2) sourceText_def lay_def refl])
  have pre: "list_all (\<lambda>y. phase_of y = Loading) pre" "addedEntryPoints pre = []"
    unfolding pre_def using addPrelude_calls [of c input "bytes @ [CHR 0x00]"] by simp_all
  have lay: "lay = layout_updateForTarget h (target input)
              (layout_parse h 0x34234 (c_str sourceText)
                 ((layout output0)\<lparr>numRenderTargets := defaultNumRenderTargets (shaderType options)\<rparr>))"
    by (simp add: lay_def parseLayout_def)
  have eps: "shaderType options = ShaderProgramType_Compute \<longrightarrow>
         entryPoints req = [\<lparr>name = Some ''computeMain'', slangStage = SLANG_STAGE_COMPUTE\<rparr>]"
    "shaderType options = Graphics \<longrightarrow>
         entryPoints req = [\<lparr>name = Some ''vertexMain'', slangStage = SLANG_STAGE_VERTEX\<rparr>,
                            \<lparr>name = Some ''fragmentMain'', slangStage = SLANG_STAGE_FRAGMENT\<rparr>]"
    "shaderType options = GraphicsCompute \<longrightarrow>
         entryPoints req = [\<lparr>name = Some ''vertexMain'', slangStage = SLANG_STAGE_VERTEX\<rparr>,
                            \<lparr>name = Some ''fragmentMain'', slangStage = SLANG_STAGE_FRAGMENT\<rparr>]"
    "shaderType options = RayTracing \<longrightarrow> entryPoints req = []"
    using assms(1) by (simp_all add: req_def buildCompileRequest_def defaultEntryPoints_def)
  have rt: "shaderType options = RayTracing \<longrightarrow> defaultNumRenderTargets (shaderType options) = 0"
    by simp
  have added: "run_outcome ?w = Return SLANG_OK \<longrightarrow>
         addedEntryPoints (run_calls ?w) = map (\<lambda>ep. (name ep, slangStage ep)) (entryPoints req)"
  proof
    assume "run_outcome ?w = Return SLANG_OK"
    then have "run_outcome ?r = Return SLANG_OK" by (simp add: w)
    from compileProgram_addedEntryPoints [OF this] show
      "addedEntryPoints (run_calls ?w) = map (\<lambda>ep. (name ep, slangStage ep)) (entryPoints req)"
      by (simp add: w addedEntryPoints_append pre)
  qed
  show ?thesis
    apply (intro exI [of _ sourceText] exI [of _ lay] exI [of _ req] exI [of _ pre])
    using req_def lay rt pre(1) eps added w by auto
qed

lemma run_layout_compute_ok:
  "run_outcome (compileWithLayout testHost debugBuild
       (testCompiler SLANG_OK [(Some ''computeMain'', SLANG_STAGE_COMPUTE)]) 7
       (testOptions ShaderProgramType_Compute)
       (testInput SLANG_SOURCE_LANGUAGE_CPP SLANG_PASS_THROUGH_NONE)
       \<lparr>oal_output = emptyOutput, layout = testLayout, oal_sourcePath = []\<rparr>) = Return SLANG_OK"
  by (simp add: compileWithLayout_def readSource_def addPrelude_def parseLayout_def
        buildCompileRequest_def defaultEntryPoints_def c_str_def testHost_def testLayout_def
        adapter_defs fixture_defs)

theorem default_entry_points_witness:
  "addedEntryPoints (run_calls (compileWithLayout testHost debugBuild
       (testCompiler SLANG_OK [(Some ''computeMain'', SLANG_STAGE_COMPUTE)]) 7
       (testOptions ShaderProgramType_Compute)
       (testInput SLANG_SOURCE_LANGUAGE_CPP SLANG_PASS_THROUGH_NONE)
       \<lparr>oal_output = emptyOutput, layout = testLayout, oal_sourcePath = []\<rparr>))
     = [(Some ''computeMain'', SLANG_STAGE_COMPUTE)] \<and>
   numRenderTargets (layout (run_out (compileWithLayout testHost debugBuild
       (testCompiler SLANG_OK [(Some ''raygenMain'', SLANG_STAGE_RAY_GENERATION)]) 7
       (testOptions RayTracing)
       (testInput SLANG_SOURCE_LANGUAGE_SLANG SLANG_PASS_THROUGH_NONE)
       \<lparr>oal_output = emptyOutput, layout = testLayout, oal_sourcePath = []\<rparr>))) = 0"
proof
  have dflt: "\<not> dontAddDefaultEntryPoints (testOptions RayTracing)"
    by (simp add: testOptions_def)
  have readable: "files testHost (sourcePath (testOptions RayTracing)) = Some ''void computeMain() {}''"
    by (simp add: testHost_def testOptions_def)
  have st: "shaderType (testOptions RayTracing) = RayTracing"
    by (simp add: testOptions_def)
  have parse: "layout_updateForTarget testHost tg (layout_parse testHost seed src l) = l" for tg seed src l
    by (simp add: testHost_def)
  from default_entry_points [OF dflt readable, of
      "testInput SLANG_SOURCE_LANGUAGE_SLANG SLANG_PASS_THROUGH_NONE"
      "\<lparr>oal_output = emptyOutput, layout = testLayout, oal_sourcePath = []\<rparr>"
      debugBuild "testCompiler SLANG_OK [(Some ''raygenMain'', SLANG_STAGE_RAY_GENERATION)]" 7]
  obtain sourceText lay where
    lay: "lay = layout_updateForTarget testHost
                  (target (testInput SLANG_SOURCE_LANGUAGE_SLANG SLANG_PASS_THROUGH_NONE))
              (layout_parse testHost 0x34234 (c_str sourceText)
                 ((layout \<lparr>oal_output = emptyOutput, layout = testLayout, oal_sourcePath = []\<rparr>)
                    \<lparr>numRenderTargets := defaultNumRenderTargets (shaderType (testOptions RayTracing))\<rparr>))"
    and out: "layout (run_out (compileWithLayout testHost debugBuild
       (testCompiler SLANG_OK [(Some ''raygenMain'', SLANG_STAGE_RAY_GENERATION)]) 7
       (testOptions RayTracing)
       (testInput SLANG_SOURCE_LANGUAGE_SLANG SLANG_PASS_THROUGH_NONE)
       \<lparr>oal_output = emptyOutput, layout = testLayout, oal_sourcePath = []\<rparr>)) = lay"
    by blast
  show "numRenderTargets (layout (run_out (compileWithLayout testHost debugBuild
       (testCompiler SLANG_OK [(Some ''raygenMain'', SLANG_STAGE_RAY_GENERATION)]) 7
       (testOptions RayTracing)
       (testInput SLANG_SOURCE_LANGUAGE_SLANG SLANG_PASS_THROUGH_NONE)
       \<lparr>oal_output = emptyOutput, layout = testLayout, oal_sourcePath = []\<rparr>))) = 0"
    unfolding out lay by (simp add: parse st)
next
  have dflt: "\<not> dontAddDefaultEntryPoints (testOptions ShaderProgramType_Compute)"
    by (simp add: testOptions_def)
  have readable: "files testHost (sourcePath (testOptions ShaderProgramType_Compute))
      = Some ''void computeMain() {}''"
    by (simp add: testHost_def testOptions_def)
  have st: "shaderType (testOptions ShaderProgramType_Compute) = ShaderProgramType_Compute"
    by (simp add: testOptions_def)
  from default_entry_points [OF dflt readable, of
      "testInput SLANG_SOURCE_LANGUAGE_CPP SLANG_PASS_THROUGH_NONE"
      "\<lparr>oal_output = emptyOutput, layout = testLayout, oal_sourcePath = []\<rparr>"
      debugBuild "testCompiler SLANG_OK [(Some ''computeMain'', SLANG_STAGE_COMPUTE)]" 7]
    st run_layout_compute_ok
  show "addedEntryPoints (run_calls (compileWithLayout testHost debugBuild
       (testCompiler SLANG_OK [(Some ''computeMain'', SLANG_STAGE_COMPUTE)]) 7
       (testOptions ShaderProgramType_Compute)
       (testInput SLANG_SOURCE_LANGUAGE_CPP SLANG_PASS_THROUGH_NONE)
       \<lparr>oal_output = emptyOutput, layout = testLayout, oal_sourcePath = []\<rparr>))
     = [(Some ''computeMain'', SLANG_STAGE_COMPUTE)]"
    by auto
qed


end
